theory Spec2Isabelle
  imports Complex_Main
begin

section \<open>Numbers, references and the agent record\<close>

text \<open>
  The colonists ("dwarfs") are JavaScript objects that the subsystems mutate in place and
  compare by identity (\<^verbatim>\<open>otherDwarf.combatTarget === dwarf\<close>).  The model keeps them in an
  explicit store: a reference is a natural number, \<open>heap\<close> maps references to objects and
  \<open>dwarfs\<close> is the array \<^verbatim>\<open>game.dwarfs\<close> of references in insertion order.

  A JavaScript number is modelled by a real number.  A numeric property that the code may
  find absent is a \<open>real option\<close>; \<open>None\<close> stands for \<^verbatim>\<open>undefined\<close> (and for the
  not-a-number value that arithmetic on \<^verbatim>\<open>undefined\<close> yields).  Comparisons with an absent
  operand are false and arithmetic with an absent operand is absent, as in JavaScript.
  The infinities that JavaScript produces on division by zero are outside the model.
\<close>

type_synonym ref = nat

definition js_lt :: "real option \<Rightarrow> real option \<Rightarrow> bool" where
  "js_lt a b = (case a of None \<Rightarrow> False | Some u \<Rightarrow> (case b of None \<Rightarrow> False | Some v \<Rightarrow> u < v))"

definition js_le :: "real option \<Rightarrow> real option \<Rightarrow> bool" where
  "js_le a b = (case a of None \<Rightarrow> False | Some u \<Rightarrow> (case b of None \<Rightarrow> False | Some v \<Rightarrow> u \<le> v))"

definition js_gt :: "real option \<Rightarrow> real option \<Rightarrow> bool" where
  "js_gt a b = js_lt b a"

definition js_ge :: "real option \<Rightarrow> real option \<Rightarrow> bool" where
  "js_ge a b = js_le b a"

definition js_add :: "real option \<Rightarrow> real option \<Rightarrow> real option" where
  "js_add a b = (case a of None \<Rightarrow> None | Some u \<Rightarrow> (case b of None \<Rightarrow> None | Some v \<Rightarrow> Some (u + v)))"

definition js_sub :: "real option \<Rightarrow> real option \<Rightarrow> real option" where
  "js_sub a b = (case a of None \<Rightarrow> None | Some u \<Rightarrow> (case b of None \<Rightarrow> None | Some v \<Rightarrow> Some (u - v)))"

definition js_mul :: "real option \<Rightarrow> real option \<Rightarrow> real option" where
  "js_mul a b = (case a of None \<Rightarrow> None | Some u \<Rightarrow> (case b of None \<Rightarrow> None | Some v \<Rightarrow> Some (u * v)))"

definition js_div :: "real option \<Rightarrow> real option \<Rightarrow> real option" where
  "js_div a b = (case a of None \<Rightarrow> None | Some u \<Rightarrow> (case b of None \<Rightarrow> None | Some v \<Rightarrow> Some (u / v)))"

definition js_min :: "real option \<Rightarrow> real option \<Rightarrow> real option" where
  "js_min a b = (case a of None \<Rightarrow> None | Some u \<Rightarrow> (case b of None \<Rightarrow> None | Some v \<Rightarrow> Some (min u v)))"

definition js_max :: "real option \<Rightarrow> real option \<Rightarrow> real option" where
  "js_max a b = (case a of None \<Rightarrow> None | Some u \<Rightarrow> (case b of None \<Rightarrow> None | Some v \<Rightarrow> Some (max u v)))"

text \<open>Truthiness of a number (\<^verbatim>\<open>!x\<close> is true for \<^verbatim>\<open>undefined\<close>, \<^verbatim>\<open>NaN\<close> and \<^verbatim>\<open>0\<close>) and \<^verbatim>\<open>x || d\<close>.\<close>

definition truthy :: "real option \<Rightarrow> bool" where
  "truthy a = (case a of None \<Rightarrow> False | Some u \<Rightarrow> u \<noteq> 0)"

definition js_or :: "real option \<Rightarrow> real option \<Rightarrow> real option" where
  "js_or a d = (if truthy a then a else d)"

record personality =
  agreeableness :: real
  openness :: real
  neuroticism :: real

record combatStats =
  attack :: real
  defense :: real
  speed :: real
  critChance :: real

record damageNumber =
  dn_damage :: real
  dn_x :: real
  dn_y :: real
  dn_timer :: real
  dn_isCritical :: bool
  dn_velocity_x :: real
  dn_velocity_y :: real

text \<open>
  The properties of a dwarf that the modelled subsystems read or write.  \<open>posX\<close>, \<open>posY\<close>
  are the properties \<^verbatim>\<open>x\<close>, \<^verbatim>\<open>y\<close>; \<open>dclass\<close> is \<^verbatim>\<open>class\<close>; \<open>moveSpeed\<close> is the dwarf's own
  \<^verbatim>\<open>speed\<close>.  \<open>guardedFemale\<close> distinguishes \<^verbatim>\<open>undefined\<close> (\<open>None\<close>) from \<^verbatim>\<open>null\<close>
  (\<open>Some None\<close>), because the code tests \<^verbatim>\<open>typeof male.guardedFemale === 'undefined'\<close>.
  The combat engine only tests \<^verbatim>\<open>isInCombat\<close>, \<^verbatim>\<open>combatTarget\<close>, \<^verbatim>\<open>lastAttacker\<close> for
  truthiness or identity, so \<^verbatim>\<open>null\<close> and \<^verbatim>\<open>undefined\<close> are both \<open>None\<close> (\<open>False\<close>) there.
  \<open>combatStats\<close> is present on every dwarf the combat engine handles (\<^verbatim>\<open>initializeDwarf\<close>
  assigns it).
\<close>

record dwarf =
  name :: string
  posX :: real
  posY :: real
  gender :: string
  isAdult :: bool
  dclass :: string
  personality :: "personality option"
  reproductionStrategy :: "string option"
  isPregnant :: "bool option"
  pregnancyTimer :: "real option"
  reproductionCooldown :: "real option"
  mateSeekingTimer :: "real option"
  territoryX :: "real option"
  territoryY :: "real option"
  guardedFemale :: "ref option option"
  targetX :: "real option"
  targetY :: "real option"
  moveSpeed :: "real option"
  efficiency :: "real option"
  age :: "real option"
  maxLifespan :: "real option"
  health :: "real option"
  maxHealth :: "real option"
  attackCooldown :: "real option"
  combatEffectTimer :: "real option"
  isInCombat :: bool
  combatTarget :: "ref option"
  lastAttacker :: "ref option"
  combatStats :: combatStats
  isDead :: bool
  healthBarVisible :: bool
  damageNumbers :: "damageNumber list"


section \<open>The world: store, population, random source and engine state\<close>

record skull =
  sk_x :: real
  sk_y :: real
  sk_name :: string
  sk_age :: real
  sk_maxAge :: real
  sk_opacity :: real

record combatEffect =
  ce_x :: real
  ce_y :: real
  ce_timer :: real
  ce_type :: string

record deathEffect =
  de_x :: real
  de_y :: real
  de_timer :: real
  de_name :: string

record stats =
  totalDeaths :: nat
  deathsByAge :: nat
  deathsByCombat :: nat
  totalCombats :: nat
  totalDamageDealt :: real

text \<open>
  A retaliation that \<^verbatim>\<open>performAttack\<close> hands to \<^verbatim>\<open>setTimeout\<close>: it runs after the current
  call has returned, so the model queues it.
\<close>

record pendingAttack =
  pa_attacker :: ref
  pa_target :: ref
  pa_delay :: nat

text \<open>
  The payloads of the events that the modelled operations emit, with the properties of
  the source's object literals in their order; the wall-clock \<^verbatim>\<open>timestamp\<close> properties
  are left out.
\<close>

datatype eventData =
    MatingFailure string string string
  | MatingAttempt string string "string option" real bool
  | MatingSuccess string string "string option" "string option"
  | StrategyAssigned string real real "string option"
  | ReproductionInitialized string string "string option" bool
  | BirthEvent string real real "real option" string real real string "string option" "real option"

record event =
  ev_type :: string
  ev_data :: eventData

text \<open>A line handed to the game log (\<^verbatim>\<open>addLog(message, important, type)\<close>).\<close>

datatype logLine =
    DeathLog string string "int option"
  | ExpectingLog string "string option" string
  | BirthLog string string

record world =
  heap :: "ref \<Rightarrow> dwarf"
  dwarfs :: "ref list"
  rand :: "nat \<Rightarrow> real"
  rpos :: nat
  skulls :: "skull list"
  combatEffects :: "combatEffect list"
  deathEffects :: "deathEffect list"
  stats :: stats
  pending :: "pendingAttack list"
  gameLog :: "logLine list"
  eventHistory :: "event list"
  pregnantFemales :: "ref list"
  nextRef :: ref

text \<open>
  \<open>eventHistory\<close> is the history of the event bus the reproduction components publish on,
  \<open>pregnantFemales\<close> the tracking set of the \<^verbatim>\<open>PregnancyManager\<close>, and \<open>nextRef\<close> the
  next unused reference (objects are allocated in sequence).
\<close>

text \<open>\<^verbatim>\<open>Math.random()\<close>: the next number of the sequence \<open>rand\<close>.\<close>

definition math_random :: "world \<Rightarrow> real \<times> world" where
  "math_random w = (rand w (rpos w), w\<lparr>rpos := Suc (rpos w)\<rparr>)"

text \<open>Assignment to properties of the object behind a reference.\<close>

definition upd :: "ref \<Rightarrow> (dwarf \<Rightarrow> dwarf) \<Rightarrow> world \<Rightarrow> world" where
  "upd r f w = w\<lparr>heap := (heap w)(r := f (heap w r))\<rparr>"

section \<open>WorldInterface\<close>

definition getAllDwarfs :: "world \<Rightarrow> ref list" where
  "getAllDwarfs w = dwarfs w"

definition calculateDistance :: "dwarf \<Rightarrow> dwarf \<Rightarrow> real" where
  "calculateDistance obj1 obj2 =
     (let dx = posX obj1 - posX obj2; dy = posY obj1 - posY obj2
      in sqrt (dx * dx + dy * dy))"

definition getNearbyDwarfs :: "world \<Rightarrow> ref \<Rightarrow> real \<Rightarrow> ref list" where
  "getNearbyDwarfs w centerDwarf radius =
     filter (\<lambda>d. d \<noteq> centerDwarf \<and> calculateDistance (heap w centerDwarf) (heap w d) < radius)
       (getAllDwarfs w)"

definition addDwarf :: "ref \<Rightarrow> world \<Rightarrow> world" where
  "addDwarf d w = w\<lparr>dwarfs := dwarfs w @ [d]\<rparr>"

definition addLog :: "logLine \<Rightarrow> world \<Rightarrow> world" where
  "addLog l w = w\<lparr>gameLog := gameLog w @ [l]\<rparr>"

section \<open>LifespanCombatSystem\<close>

text \<open>
  The engine's own state (skulls, visual effects, statistics) is part of the world.  Its
  console output is not modelled, and the game log (\<^verbatim>\<open>addLog\<close>) is taken to be present.
\<close>

record lcsConfig =
  cfg_maxLifespan :: real
  cfg_minLifespan :: real
  agingStartAge :: real
  cfg_maxHealth :: real
  naturalHealing :: real
  agingDamage :: real
  baseDamage :: real
  damageVariance :: real
  attackRange :: real
  cfg_attackCooldown :: real
  criticalChance :: real
  criticalMultiplier :: real
  territorialCombatChance :: real
  randomCombatChance :: real
  combatEffectDuration :: real
  deathEffectDuration :: real

text \<open>The defaults of the constructor.\<close>

definition defaultLcsConfig :: lcsConfig where
  "defaultLcsConfig = \<lparr>
     cfg_maxLifespan = 36000, cfg_minLifespan = 18000, agingStartAge = 25200,
     cfg_maxHealth = 100, naturalHealing = 0.1, agingDamage = 0.05,
     baseDamage = 15, damageVariance = 5, attackRange = 20, cfg_attackCooldown = 60,
     criticalChance = 0.1, criticalMultiplier = 1.5,
     territorialCombatChance = 0.02, randomCombatChance = 0.001,
     combatEffectDuration = 30, deathEffectDuration = 60 \<rparr>"

definition assignCombatStats :: "ref \<Rightarrow> world \<Rightarrow> world" where
  "assignCombatStats d w =
     upd d (\<lambda>ob. ob\<lparr>combatStats :=
       (if dclass ob = ''fighter'' then \<lparr>attack = 1.2, defense = 1.1, speed = 1.0, critChance = 0.12\<rparr>
        else if dclass ob = ''mage'' then \<lparr>attack = 0.9, defense = 0.8, speed = 1.1, critChance = 0.15\<rparr>
        else if dclass ob = ''archer'' then \<lparr>attack = 1.0, defense = 0.9, speed = 1.2, critChance = 0.1\<rparr>
        else \<lparr>attack = 1.0, defense = 1.0, speed = 1.0, critChance = 0.1\<rparr>)\<rparr>) w"

definition initializeDwarf :: "lcsConfig \<Rightarrow> ref \<Rightarrow> world \<Rightarrow> world" where
  "initializeDwarf cfg d w =
     (let (r1, w1) = math_random w;
          w2 = upd d (\<lambda>ob. ob\<lparr>maxLifespan :=
                 Some (cfg_minLifespan cfg + r1 * (cfg_maxLifespan cfg - cfg_minLifespan cfg))\<rparr>) w1;
          (r2, w3) = math_random w2;
          w4 = upd d (\<lambda>ob. ob\<lparr>maxHealth := Some (cfg_maxHealth cfg + r2 * 20 - 10)\<rparr>) w3;
          w5 = upd d (\<lambda>ob. ob\<lparr>health := maxHealth ob\<rparr>) w4;
          w6 = upd d (\<lambda>ob. ob\<lparr>age := js_or (age ob) (Some 0)\<rparr>) w5;
          w7 = upd d (\<lambda>ob. ob\<lparr>attackCooldown := Some 0, isInCombat := False, combatTarget := None,
                              lastAttacker := None, combatEffectTimer := Some 0\<rparr>) w6;
          w8 = assignCombatStats d w7
      in upd d (\<lambda>ob. ob\<lparr>healthBarVisible := False, damageNumbers := []\<rparr>) w8)"

definition handleAging :: "lcsConfig \<Rightarrow> ref \<Rightarrow> world \<Rightarrow> world" where
  "handleAging cfg d w =
     (let ageRatio = js_div (age (heap w d)) (maxLifespan (heap w d))
      in if js_ge ageRatio (Some 0.7) then
           (let agingFactor = js_div (js_sub ageRatio (Some 0.7)) (Some 0.3);
                w1 = upd d (\<lambda>ob. ob\<lparr>health := js_sub (health ob) (js_mul (Some (agingDamage cfg)) agingFactor)\<rparr>) w
            in if truthy (efficiency (heap w1 d)) then
                 upd d (\<lambda>ob. ob\<lparr>efficiency :=
                   js_max (Some 0.3)
                     (js_mul (efficiency ob) (js_sub (Some 1) (js_mul agingFactor (Some 0.3))))\<rparr>) w1
               else w1)
         else w)"

definition handleHealthUpdate :: "lcsConfig \<Rightarrow> ref \<Rightarrow> world \<Rightarrow> world" where
  "handleHealthUpdate cfg d w =
     (let w1 = (if js_lt (health (heap w d)) (maxHealth (heap w d)) \<and> \<not> isInCombat (heap w d)
                   \<and> js_gt (health (heap w d)) (js_mul (maxHealth (heap w d)) (Some 0.3))
                then upd d (\<lambda>ob. ob\<lparr>health :=
                       js_min (maxHealth ob) (js_add (health ob) (Some (naturalHealing cfg)))\<rparr>) w
                else w)
      in upd d (\<lambda>ob. ob\<lparr>healthBarVisible := js_lt (health ob) (js_mul (maxHealth ob) (Some 0.9))\<rparr>) w1)"

text \<open>
  The loop of \<^verbatim>\<open>updateDamageNumbers\<close> advances every entry and splices out those whose
  timer has run out; it walks the array backwards, so no entry is skipped.
\<close>

definition stepDamageNumber :: "damageNumber \<Rightarrow> damageNumber" where
  "stepDamageNumber n =
     n\<lparr>dn_timer := dn_timer n - 1,
        dn_x := dn_x n + dn_velocity_x n,
        dn_y := dn_y n + dn_velocity_y n,
        dn_velocity_y := dn_velocity_y n + 0.1\<rparr>"

definition updateDamageNumbers :: "ref \<Rightarrow> world \<Rightarrow> world" where
  "updateDamageNumbers d w =
     upd d (\<lambda>ob. ob\<lparr>damageNumbers :=
       filter (\<lambda>n. \<not> dn_timer n \<le> 0) (map stepDamageNumber (damageNumbers ob))\<rparr>) w"

definition isTerritorialDispute :: "dwarf \<Rightarrow> dwarf \<Rightarrow> bool" where
  "isTerritorialDispute dwarf1 dwarf2 =
     (reproductionStrategy dwarf1 = Some ''orange'' \<and> reproductionStrategy dwarf2 = Some ''orange''
      \<and> gender dwarf1 = ''male'' \<and> gender dwarf2 = ''male'')"

definition shouldEngageInCombat :: "lcsConfig \<Rightarrow> dwarf \<Rightarrow> dwarf \<Rightarrow> world \<Rightarrow> bool \<times> world" where
  "shouldEngageInCombat cfg attacker target w =
     (if gender attacker = gender target \<and> \<not> isTerritorialDispute attacker target then (False, w)
      else if isTerritorialDispute attacker target then
        (let (r, w1) = math_random w in (r < territorialCombatChance cfg, w1))
      else
        (let (r1, w1) = math_random w
         in if r1 < randomCombatChance cfg then
              (case personality attacker of
                 Some p \<Rightarrow>
                   (let aggression = (100 - agreeableness p) + neuroticism p;
                        (r2, w2) = math_random w1
                    in (r2 * 200 < aggression, w2))
               | None \<Rightarrow> (True, w1))
            else (False, w1)))"

text \<open>
  \<^verbatim>\<open>nearbyDwarfs.filter(target => target.health > 0 && target !== dwarf &&
  this.shouldEngageInCombat(dwarf, target))\<close>: the predicate draws random numbers, so the
  filter threads the world through the candidates in array order.
\<close>

fun potentialTargets :: "lcsConfig \<Rightarrow> ref \<Rightarrow> ref list \<Rightarrow> world \<Rightarrow> ref list \<times> world" where
  "potentialTargets cfg d [] w = ([], w)"
| "potentialTargets cfg d (t # ts) w =
     (if js_gt (health (heap w t)) (Some 0) \<and> t \<noteq> d then
        (let (b, w1) = shouldEngageInCombat cfg (heap w d) (heap w t) w;
             (rest, w2) = potentialTargets cfg d ts w1
         in (if b then t # rest else rest, w2))
      else potentialTargets cfg d ts w)"

definition addDamageNumber :: "ref \<Rightarrow> real \<Rightarrow> bool \<Rightarrow> world \<Rightarrow> world" where
  "addDamageNumber target dmg isCritical w =
     (let (r1, w1) = math_random w;
          (r2, w2) = math_random w1;
          n = \<lparr>dn_damage = dmg,
               dn_x = posX (heap w2 target) + r1 * 20 - 10,
               dn_y = posY (heap w2 target) - 20,
               dn_timer = 60,
               dn_isCritical = isCritical,
               dn_velocity_x = r2 * 2 - 1,
               dn_velocity_y = - 2\<rparr>
      in upd target (\<lambda>ob. ob\<lparr>damageNumbers := damageNumbers ob @ [n]\<rparr>) w2)"

definition addCombatEffect :: "lcsConfig \<Rightarrow> ref \<Rightarrow> ref \<Rightarrow> world \<Rightarrow> world" where
  "addCombatEffect cfg attacker target w =
     w\<lparr>combatEffects := combatEffects w @
        [\<lparr>ce_x = (posX (heap w attacker) + posX (heap w target)) / 2,
          ce_y = (posY (heap w attacker) + posY (heap w target)) / 2,
          ce_timer = combatEffectDuration cfg,
          ce_type = ''melee''\<rparr>]\<rparr>"

definition performAttack :: "lcsConfig \<Rightarrow> ref \<Rightarrow> ref \<Rightarrow> world \<Rightarrow> world" where
  "performAttack cfg attacker target w =
     (if js_gt (attackCooldown (heap w attacker)) (Some 0) then w
      else
       (let (r1, w1) = math_random w;
            baseDmg = baseDamage cfg + r1 * damageVariance cfg;
            attackMultiplier = attack (combatStats (heap w1 attacker));
            defenseMultiplier = defense (combatStats (heap w1 target));
            damage = baseDmg * attackMultiplier / defenseMultiplier;
            critCh = criticalChance cfg + critChance (combatStats (heap w1 attacker));
            (r2, w2) = math_random w1;
            isCritical = (r2 < critCh);
            damage2 = (if isCritical then damage * criticalMultiplier cfg else damage);
            finalDamage = real_of_int \<lfloor>damage2\<rfloor>;
            w3 = upd target (\<lambda>ob. ob\<lparr>health := js_sub (health ob) (Some finalDamage)\<rparr>) w2;
            w4 = upd target (\<lambda>ob. ob\<lparr>lastAttacker := Some attacker\<rparr>) w3;
            w5 = upd attacker (\<lambda>ob. ob\<lparr>isInCombat := True\<rparr>) w4;
            w6 = upd target (\<lambda>ob. ob\<lparr>isInCombat := True\<rparr>) w5;
            w7 = upd attacker (\<lambda>ob. ob\<lparr>combatTarget := Some target\<rparr>) w6;
            w8 = upd target (\<lambda>ob. ob\<lparr>combatTarget := Some attacker\<rparr>) w7;
            w9 = upd attacker (\<lambda>ob. ob\<lparr>attackCooldown :=
                   Some (cfg_attackCooldown cfg / speed (combatStats ob))\<rparr>) w8;
            w10 = upd attacker (\<lambda>ob. ob\<lparr>combatEffectTimer := Some (combatEffectDuration cfg)\<rparr>) w9;
            w11 = upd target (\<lambda>ob. ob\<lparr>combatEffectTimer := Some (combatEffectDuration cfg)\<rparr>) w10;
            w12 = addDamageNumber target finalDamage isCritical w11;
            w13 = addCombatEffect cfg attacker target w12;
            w14 = w13\<lparr>stats := (stats w13)\<lparr>totalCombats := Suc (totalCombats (stats w13)),
                     totalDamageDealt := totalDamageDealt (stats w13) + finalDamage\<rparr>\<rparr>
        in if js_gt (health (heap w14 target)) (Some 0) \<and> attackCooldown (heap w14 target) = Some 0
           then (let (r3, w15) = math_random w14
                 in if r3 < 0.7
                    then w15\<lparr>pending := pending w15 @
                           [\<lparr>pa_attacker = target, pa_target = attacker, pa_delay = 10\<rparr>]\<rparr>
                    else w15)
           else w14))"

definition moveTowardsTarget :: "ref \<Rightarrow> ref \<Rightarrow> world \<Rightarrow> world" where
  "moveTowardsTarget d target w =
     (let dx = posX (heap w target) - posX (heap w d);
          dy = posY (heap w target) - posY (heap w d);
          distance = sqrt (dx * dx + dy * dy)
      in if distance > 0 then
           (let mv = (case js_or (moveSpeed (heap w d)) (Some 1) of Some v \<Rightarrow> v | None \<Rightarrow> 1)
                       * speed (combatStats (heap w d));
                w1 = upd d (\<lambda>ob. ob\<lparr>posX := posX ob + (dx / distance) * mv\<rparr>) w;
                w2 = upd d (\<lambda>ob. ob\<lparr>posY := posY ob + (dy / distance) * mv\<rparr>) w1;
                w3 = upd d (\<lambda>ob. ob\<lparr>targetX := Some (posX (heap w2 target))\<rparr>) w2
            in upd d (\<lambda>ob. ob\<lparr>targetY := Some (posY (heap w3 target))\<rparr>) w3)
         else w)"

definition handleCombatBehavior :: "lcsConfig \<Rightarrow> ref \<Rightarrow> world \<Rightarrow> world" where
  "handleCombatBehavior cfg d w =
     (if \<not> isAdult (heap w d) \<or> js_gt (attackCooldown (heap w d)) (Some 0) then w
      else
       (let nearbyDwarfs = getNearbyDwarfs w d (attackRange cfg * 2);
            (targets, w1) = potentialTargets cfg d nearbyDwarfs w
        in case targets of
             [] \<Rightarrow> w1
           | target # _ \<Rightarrow>
               (let distance = calculateDistance (heap w1 d) (heap w1 target)
                in if distance \<le> attackRange cfg then performAttack cfg d target w1
                   else if combatTarget (heap w1 d) = Some target then moveTowardsTarget d target w1
                   else w1)))"

definition createSkull :: "ref \<Rightarrow> world \<Rightarrow> world" where
  "createSkull d w =
     w\<lparr>skulls := skulls w @
        [\<lparr>sk_x = posX (heap w d), sk_y = posY (heap w d),
          sk_name = name (heap w d) @ [CHR 0x27] @ ''s remains'',
          sk_age = 0, sk_maxAge = 18000, sk_opacity = 1\<rparr>]\<rparr>"

definition addDeathEffect :: "lcsConfig \<Rightarrow> ref \<Rightarrow> world \<Rightarrow> world" where
  "addDeathEffect cfg d w =
     w\<lparr>deathEffects := deathEffects w @
        [\<lparr>de_x = posX (heap w d), de_y = posY (heap w d),
          de_timer = deathEffectDuration cfg, de_name = name (heap w d)\<rparr>]\<rparr>"

text \<open>The body of the \<^verbatim>\<open>forEach\<close> in \<^verbatim>\<open>handleDeath\<close>, for one \<^verbatim>\<open>otherDwarf\<close>.\<close>

definition clearCombatTarget :: "ref \<Rightarrow> world \<Rightarrow> ref \<Rightarrow> world" where
  "clearCombatTarget d w otherDwarf =
     (if combatTarget (heap w otherDwarf) = Some d then
        upd otherDwarf (\<lambda>ob. ob\<lparr>isInCombat := False\<rparr>)
          (upd otherDwarf (\<lambda>ob. ob\<lparr>combatTarget := None\<rparr>) w)
      else w)"

definition handleDeath :: "lcsConfig \<Rightarrow> ref \<Rightarrow> world \<Rightarrow> world" where
  "handleDeath cfg d w =
     (let deathCause = (if js_le (health (heap w d)) (Some 0) then ''combat'' else ''age'');
          w1 = createSkull d w;
          w2 = addDeathEffect cfg d w1;
          w3 = w2\<lparr>stats := (stats w2)\<lparr>totalDeaths := Suc (totalDeaths (stats w2))\<rparr>\<rparr>;
          w4 = (if deathCause = ''age''
                then w3\<lparr>stats := (stats w3)\<lparr>deathsByAge := Suc (deathsByAge (stats w3))\<rparr>\<rparr>
                else w3\<lparr>stats := (stats w3)\<lparr>deathsByCombat := Suc (deathsByCombat (stats w3))\<rparr>\<rparr>);
          ageInMinutes = map_option (\<lambda>a. \<lfloor>a / 60\<rfloor>) (age (heap w4 d));
          w5 = addLog (DeathLog (name (heap w4 d)) deathCause ageInMinutes) w4;
          w6 = foldl (clearCombatTarget d) w5 (getAllDwarfs w5);
          w7 = upd d (\<lambda>ob. ob\<lparr>isDead := True\<rparr>) w6
      in upd d (\<lambda>ob. ob\<lparr>health := Some 0\<rparr>) w7)"

definition updateDwarf :: "lcsConfig \<Rightarrow> ref \<Rightarrow> world \<Rightarrow> world" where
  "updateDwarf cfg d w =
     (if \<not> truthy (health (heap w d)) \<or> js_le (health (heap w d)) (Some 0) then w
      else
       (let w1 = upd d (\<lambda>ob. ob\<lparr>age := js_add (js_or (age ob) (Some 0)) (Some 1)\<rparr>) w;
            w2 = handleAging cfg d w1;
            w3 = handleHealthUpdate cfg d w2;
            w4 = (if js_gt (attackCooldown (heap w3 d)) (Some 0)
                  then upd d (\<lambda>ob. ob\<lparr>attackCooldown := js_sub (attackCooldown ob) (Some 1)\<rparr>) w3
                  else w3);
            w5 = (if js_gt (combatEffectTimer (heap w4 d)) (Some 0)
                  then upd d (\<lambda>ob. ob\<lparr>combatEffectTimer := js_sub (combatEffectTimer ob) (Some 1)\<rparr>) w4
                  else w4);
            w6 = updateDamageNumbers d w5;
            w7 = handleCombatBehavior cfg d w6
        in if js_le (health (heap w7 d)) (Some 0) \<or> js_ge (age (heap w7 d)) (maxLifespan (heap w7 d))
           then handleDeath cfg d w7
           else w7))"

definition stepSkull :: "skull \<Rightarrow> skull" where
  "stepSkull s =
     (let s1 = s\<lparr>sk_age := sk_age s + 1\<rparr>
      in s1\<lparr>sk_opacity := max 0 (1 - sk_age s1 / sk_maxAge s1)\<rparr>)"

definition updateSkulls :: "world \<Rightarrow> world" where
  "updateSkulls w =
     w\<lparr>skulls := filter (\<lambda>s. \<not> sk_age s \<ge> sk_maxAge s) (map stepSkull (skulls w))\<rparr>"

definition updateEffects :: "world \<Rightarrow> world" where
  "updateEffects w =
     (let w1 = w\<lparr>combatEffects := filter (\<lambda>e. \<not> ce_timer e \<le> 0)
                   (map (\<lambda>e. e\<lparr>ce_timer := ce_timer e - 1\<rparr>) (combatEffects w))\<rparr>
      in w1\<lparr>deathEffects := filter (\<lambda>e. \<not> de_timer e \<le> 0)
               (map (\<lambda>e. e\<lparr>de_timer := de_timer e - 1\<rparr>) (deathEffects w1))\<rparr>)"

text \<open>The per-tick entry point \<^verbatim>\<open>update(dwarfs, world)\<close>, called with \<^verbatim>\<open>game.dwarfs\<close>.\<close>

definition updateOne :: "lcsConfig \<Rightarrow> world \<Rightarrow> ref \<Rightarrow> world" where
  "updateOne cfg w d = (if \<not> isDead (heap w d) then updateDwarf cfg d w else w)"

definition update :: "lcsConfig \<Rightarrow> world \<Rightarrow> world" where
  "update cfg w = updateEffects (updateSkulls (foldl (updateOne cfg) w (dwarfs w)))"


section \<open>ReproductionConfig\<close>

text \<open>
  The configuration the engine runs on.  One record for the three strategy objects; a
  property that a strategy object does not carry is \<open>None\<close>.  The \<^verbatim>\<open>name\<close>, \<^verbatim>\<open>displayName\<close> and \<^verbatim>\<open>VISUAL\<close>
  entries, which no modelled function reads, are left out.
\<close>

record strategyConfig =
  cooldown :: "real option"
  matingChance :: "real option"
  color :: "string option"
  territoryRadius :: "real option"
  matingDistance :: "real option"
  competitorDistance :: "real option"
  displacementChance :: "real option"
  guardDistance :: "real option"
  maxGuardRange :: "real option"
  guardDetectionRadius :: "real option"
  hidingRange :: "real option"

record agreeablenessConfig =
  ag_threshold :: "real option"
  blueBonus :: real
  orangePenalty :: real

record opennessConfig =
  op_threshold :: "real option"
  yellowBonus :: real

record neuroticismConfig =
  ne_threshold :: "real option"
  orangeBonus :: real

record femaleSelectionConfig =
  baseScore :: real
  randomVariance :: real
  fs_agreeableness :: "agreeablenessConfig option"
  fs_openness :: "opennessConfig option"
  fs_neuroticism :: "neuroticismConfig option"
  evaluationChance :: real
  proximityRadius :: real

record reproConfig =
  MATING_SUCCESS_RATE :: real
  PREGNANCY_DURATION :: real
  MATURITY_THRESHOLD :: real
  FEMALE_REPRODUCTION_COOLDOWN :: real
  MALE_REPRODUCTION_COOLDOWN :: real
  MALE_STRATEGIES :: "string list"
  ORANGE_STRATEGY :: "strategyConfig option"
  BLUE_STRATEGY :: "strategyConfig option"
  YELLOW_STRATEGY :: "strategyConfig option"
  FEMALE_SELECTION :: femaleSelectionConfig
  fleeTimer :: real
  babySpawnRadius :: real

definition noStrategyProps :: strategyConfig where
  "noStrategyProps = \<lparr>cooldown = None, matingChance = None, color = None,
     territoryRadius = None, matingDistance = None, competitorDistance = None,
     displacementChance = None, guardDistance = None, maxGuardRange = None,
     guardDetectionRadius = None, hidingRange = None\<rparr>"

definition REPRODUCTION_CONFIG :: reproConfig where
  "REPRODUCTION_CONFIG = \<lparr>
     MATING_SUCCESS_RATE = 0.7,
     PREGNANCY_DURATION = 3600,
     MATURITY_THRESHOLD = 1800,
     FEMALE_REPRODUCTION_COOLDOWN = 7200,
     MALE_REPRODUCTION_COOLDOWN = 3600,
     MALE_STRATEGIES = [''orange'', ''blue'', ''yellow''],
     ORANGE_STRATEGY = Some (noStrategyProps\<lparr>cooldown := Some 300, territoryRadius := Some 80,
        matingDistance := Some 25, matingChance := Some 0.02, competitorDistance := Some 60,
        displacementChance := Some 0.1, color := Some ''#FF6600''\<rparr>),
     BLUE_STRATEGY = Some (noStrategyProps\<lparr>cooldown := Some 240, guardDistance := Some 30,
        matingChance := Some 0.015, maxGuardRange := Some 40, color := Some ''#0066FF''\<rparr>),
     YELLOW_STRATEGY = Some (noStrategyProps\<lparr>cooldown := Some 180, matingDistance := Some 35,
        matingChance := Some 0.025, guardDetectionRadius := Some 50, hidingRange := Some 100,
        color := Some ''#FFFF00''\<rparr>),
     FEMALE_SELECTION = \<lparr>baseScore = 50, randomVariance = 20,
        fs_agreeableness = Some \<lparr>ag_threshold = Some 60, blueBonus = 30, orangePenalty = - 10\<rparr>,
        fs_openness = Some \<lparr>op_threshold = Some 70, yellowBonus = 20\<rparr>,
        fs_neuroticism = Some \<lparr>ne_threshold = Some 40, orangeBonus = 25\<rparr>,
        evaluationChance = 0.008, proximityRadius = 40\<rparr>,
     fleeTimer = 180,
     babySpawnRadius = 40 \<rparr>"

text \<open>
  \<^verbatim>\<open>validateConfig\<close> is handed an object that nothing has inspected yet.  A setting it
  reads as a number is a \<open>jsnum\<close>: \<open>Undefined\<close> for a property the object does not carry,
  the not-a-number value, an infinity, or a finite number.  Settings holding a value of
  another JavaScript type (a string or an object where a number is expected) are outside
  this type.  The fields carry the source's property names behind a prefix, the plain
  names being those of the configuration the engine runs on.
\<close>

datatype jsnum = Undefined | NaN | NegInfinity | PosInfinity | Num real

record strategyObject =
  so_cooldown :: jsnum
  so_matingChance :: jsnum
  so_color :: "string option"
  so_territoryRadius :: jsnum
  so_matingDistance :: jsnum
  so_competitorDistance :: jsnum
  so_displacementChance :: jsnum
  so_guardDistance :: jsnum
  so_maxGuardRange :: jsnum
  so_guardDetectionRadius :: jsnum
  so_hidingRange :: jsnum

record traitObject =
  threshold :: jsnum

record femaleSelectionObject =
  fo_baseScore :: jsnum
  fo_randomVariance :: jsnum
  fo_agreeableness :: "traitObject option"
  fo_openness :: "traitObject option"
  fo_neuroticism :: "traitObject option"
  fo_evaluationChance :: jsnum

text \<open>
  \<open>co_MALE_STRATEGIES\<close> is \<open>None\<close> when the property is not an array, a strategy entry is
  \<open>None\<close> when it is not an object, \<open>co_FEMALE_SELECTION\<close> is \<open>None\<close> when the property is
  absent.
\<close>

record configObject =
  co_MATING_SUCCESS_RATE :: jsnum
  co_PREGNANCY_DURATION :: jsnum
  co_MATURITY_THRESHOLD :: jsnum
  co_FEMALE_REPRODUCTION_COOLDOWN :: jsnum
  co_MALE_REPRODUCTION_COOLDOWN :: jsnum
  co_MALE_STRATEGIES :: "string list option"
  co_ORANGE_STRATEGY :: "strategyObject option"
  co_BLUE_STRATEGY :: "strategyObject option"
  co_YELLOW_STRATEGY :: "strategyObject option"
  co_FEMALE_SELECTION :: "femaleSelectionObject option"

text \<open>The object that a configuration of the engine is.\<close>

definition numOf :: "real option \<Rightarrow> jsnum" where
  "numOf v = (case v of None \<Rightarrow> Undefined | Some u \<Rightarrow> Num u)"

definition strategyObjectOf :: "strategyConfig \<Rightarrow> strategyObject" where
  "strategyObjectOf sc = \<lparr>
     so_cooldown = numOf (cooldown sc),
     so_matingChance = numOf (matingChance sc),
     so_color = color sc,
     so_territoryRadius = numOf (territoryRadius sc),
     so_matingDistance = numOf (matingDistance sc),
     so_competitorDistance = numOf (competitorDistance sc),
     so_displacementChance = numOf (displacementChance sc),
     so_guardDistance = numOf (guardDistance sc),
     so_maxGuardRange = numOf (maxGuardRange sc),
     so_guardDetectionRadius = numOf (guardDetectionRadius sc),
     so_hidingRange = numOf (hidingRange sc) \<rparr>"

definition femaleSelectionObjectOf :: "femaleSelectionConfig \<Rightarrow> femaleSelectionObject" where
  "femaleSelectionObjectOf fs = \<lparr>
     fo_baseScore = Num (baseScore fs),
     fo_randomVariance = Num (randomVariance fs),
     fo_agreeableness = map_option (\<lambda>t. \<lparr>threshold = numOf (ag_threshold t)\<rparr>) (fs_agreeableness fs),
     fo_openness = map_option (\<lambda>t. \<lparr>threshold = numOf (op_threshold t)\<rparr>) (fs_openness fs),
     fo_neuroticism = map_option (\<lambda>t. \<lparr>threshold = numOf (ne_threshold t)\<rparr>) (fs_neuroticism fs),
     fo_evaluationChance = Num (evaluationChance fs) \<rparr>"

definition configObjectOf :: "reproConfig \<Rightarrow> configObject" where
  "configObjectOf config = \<lparr>
     co_MATING_SUCCESS_RATE = Num (MATING_SUCCESS_RATE config),
     co_PREGNANCY_DURATION = Num (PREGNANCY_DURATION config),
     co_MATURITY_THRESHOLD = Num (MATURITY_THRESHOLD config),
     co_FEMALE_REPRODUCTION_COOLDOWN = Num (FEMALE_REPRODUCTION_COOLDOWN config),
     co_MALE_REPRODUCTION_COOLDOWN = Num (MALE_REPRODUCTION_COOLDOWN config),
     co_MALE_STRATEGIES = Some (MALE_STRATEGIES config),
     co_ORANGE_STRATEGY = map_option strategyObjectOf (ORANGE_STRATEGY config),
     co_BLUE_STRATEGY = map_option strategyObjectOf (BLUE_STRATEGY config),
     co_YELLOW_STRATEGY = map_option strategyObjectOf (YELLOW_STRATEGY config),
     co_FEMALE_SELECTION = Some (femaleSelectionObjectOf (FEMALE_SELECTION config)) \<rparr>"

text \<open>
  The comparisons \<^verbatim>\<open>x <= c\<close>, \<^verbatim>\<open>x < c\<close> and \<^verbatim>\<open>x > c\<close> of a setting with a finite literal.
  An absent setting is converted to not-a-number, and every comparison with
  not-a-number is false.
\<close>

definition jsnum_le :: "jsnum \<Rightarrow> real \<Rightarrow> bool" where
  "jsnum_le x c = (case x of Num v \<Rightarrow> v \<le> c | NegInfinity \<Rightarrow> True | _ \<Rightarrow> False)"

definition jsnum_lt :: "jsnum \<Rightarrow> real \<Rightarrow> bool" where
  "jsnum_lt x c = (case x of Num v \<Rightarrow> v < c | NegInfinity \<Rightarrow> True | _ \<Rightarrow> False)"

definition jsnum_gt :: "jsnum \<Rightarrow> real \<Rightarrow> bool" where
  "jsnum_gt x c = (case x of Num v \<Rightarrow> c < v | PosInfinity \<Rightarrow> True | _ \<Rightarrow> False)"

text \<open>
  \<^verbatim>\<open>typeof x === 'number'\<close> holds of not-a-number and of the infinities too;
  \<^verbatim>\<open>Number.isInteger(x)\<close> holds of the finite integers only.
\<close>

definition typeofNumber :: "jsnum \<Rightarrow> bool" where
  "typeofNumber x = (x \<noteq> Undefined)"

definition isInteger :: "real \<Rightarrow> bool" where
  "isInteger v = (real_of_int \<lfloor>v\<rfloor> = v)"

definition Number_isInteger :: "jsnum \<Rightarrow> bool" where
  "Number_isInteger x = (case x of Num v \<Rightarrow> isInteger v | _ \<Rightarrow> False)"

text \<open>
  The errors \<^verbatim>\<open>validateConfig\<close> throws.  Each constructor names the setting of the
  source's message and carries the offending value that the message interpolates;
  \<open>CannotReadProperty\<close> is the \<^verbatim>\<open>TypeError\<close> of reading a property of an absent
  \<^verbatim>\<open>FEMALE_SELECTION\<close>.
\<close>

datatype configError =
    InvalidMatingSuccessRate jsnum
  | InvalidPregnancyDuration jsnum
  | InvalidMaturityThreshold jsnum
  | InvalidCooldownAtIndex nat jsnum
  | InvalidMaleStrategies
  | MissingRequiredStrategy string
  | InvalidStrategyObject string
  | InvalidStrategyProp string string jsnum
  | InvalidMatingChance string jsnum
  | InvalidColor string "string option"
  | CannotReadProperty string
  | InvalidBaseScore jsnum
  | InvalidRandomVariance jsnum
  | InvalidEvaluationChance jsnum
  | InvalidThresholdConfiguration string
  | InvalidThreshold string jsnum

text \<open>The regular expression \<^verbatim>\<open>/^#[0-9A-Fa-f]{6}$/\<close>.\<close>

definition isHexDigit :: "char \<Rightarrow> bool" where
  "isHexDigit c = (c \<in> set ''0123456789ABCDEFabcdef'')"

definition isHexColor :: "string \<Rightarrow> bool" where
  "isHexColor s = (case s of [] \<Rightarrow> False | c # cs \<Rightarrow> c = CHR ''#'' \<and> length cs = 6 \<and> list_all isHexDigit cs)"

text \<open>
  \<^verbatim>\<open>props.forEach(prop => { if (typeof strategyConfig[prop] !== 'number' ||
  strategyConfig[prop] <= 0) throw ... })\<close>: the first offending property throws.
\<close>

fun checkPositiveProps :: "string \<Rightarrow> (string \<times> jsnum) list \<Rightarrow> configError + unit" where
  "checkPositiveProps strategyName [] = Inr ()"
| "checkPositiveProps strategyName ((prop, v) # ps) =
     (if \<not> typeofNumber v \<or> jsnum_le v 0 then Inl (InvalidStrategyProp strategyName prop v)
      else checkPositiveProps strategyName ps)"

definition validateStrategyConfig :: "strategyObject option \<Rightarrow> string \<Rightarrow> configError + unit" where
  "validateStrategyConfig strategyConfig strategyName =
     (case strategyConfig of
        None \<Rightarrow> Inl (InvalidStrategyObject strategyName)
      | Some sc \<Rightarrow>
         (case checkPositiveProps strategyName
                 [(''cooldown'', so_cooldown sc), (''matingChance'', so_matingChance sc)] of
            Inl e \<Rightarrow> Inl e
          | Inr _ \<Rightarrow>
             if jsnum_gt (so_matingChance sc) 1
               then Inl (InvalidMatingChance strategyName (so_matingChance sc))
             else if (case so_color sc of None \<Rightarrow> True | Some c \<Rightarrow> c = [] \<or> \<not> isHexColor c)
               then Inl (InvalidColor strategyName (so_color sc))
             else (case (if strategyName = ''ORANGE_STRATEGY'' then
                           checkPositiveProps strategyName
                             [(''territoryRadius'', so_territoryRadius sc),
                              (''matingDistance'', so_matingDistance sc),
                              (''competitorDistance'', so_competitorDistance sc),
                              (''displacementChance'', so_displacementChance sc)]
                         else Inr ()) of
                     Inl e \<Rightarrow> Inl e
                   | Inr _ \<Rightarrow>
                      (case (if strategyName = ''BLUE_STRATEGY'' then
                               checkPositiveProps strategyName
                                 [(''guardDistance'', so_guardDistance sc),
                                  (''maxGuardRange'', so_maxGuardRange sc)]
                             else Inr ()) of
                         Inl e \<Rightarrow> Inl e
                       | Inr _ \<Rightarrow>
                          (if strategyName = ''YELLOW_STRATEGY'' then
                             checkPositiveProps strategyName
                               [(''matingDistance'', so_matingDistance sc),
                                (''guardDetectionRadius'', so_guardDetectionRadius sc),
                                (''hidingRange'', so_hidingRange sc)]
                           else Inr ())))))"

fun checkCooldowns :: "nat \<Rightarrow> jsnum list \<Rightarrow> configError + unit" where
  "checkCooldowns index [] = Inr ()"
| "checkCooldowns index (c # cs) =
     (if jsnum_le c 0 \<or> \<not> Number_isInteger c then Inl (InvalidCooldownAtIndex index c)
      else checkCooldowns (Suc index) cs)"

fun checkRequiredStrategies :: "string list \<Rightarrow> string list \<Rightarrow> configError + unit" where
  "checkRequiredStrategies have [] = Inr ()"
| "checkRequiredStrategies have (s # ss) =
     (if s \<notin> set have then Inl (MissingRequiredStrategy s)
      else checkRequiredStrategies have ss)"

text \<open>
  \<^verbatim>\<open>if (!traitConfig || typeof traitConfig.threshold !== 'number') throw ...;
  if (traitConfig.threshold < 0 || traitConfig.threshold > 100) throw ...\<close>, trait by trait.
\<close>

fun checkThresholds :: "(string \<times> traitObject option) list \<Rightarrow> configError + unit" where
  "checkThresholds [] = Inr ()"
| "checkThresholds ((trait, traitConfig) # ts) =
     (case traitConfig of
        None \<Rightarrow> Inl (InvalidThresholdConfiguration trait)
      | Some tc \<Rightarrow>
          if \<not> typeofNumber (threshold tc) then Inl (InvalidThresholdConfiguration trait)
          else if jsnum_lt (threshold tc) 0 \<or> jsnum_gt (threshold tc) 100
            then Inl (InvalidThreshold trait (threshold tc))
          else checkThresholds ts)"

text \<open>Sequencing of checks: the first error ends the validation.\<close>

definition andThen :: "'e + unit \<Rightarrow> 'e + unit \<Rightarrow> 'e + unit" where
  "andThen a b = (case a of Inl e \<Rightarrow> Inl e | Inr _ \<Rightarrow> b)"

definition validateConfig :: "configObject \<Rightarrow> configError + unit" where
  "validateConfig config =
     (if jsnum_le (co_MATING_SUCCESS_RATE config) 0 \<or> jsnum_gt (co_MATING_SUCCESS_RATE config) 1
        then Inl (InvalidMatingSuccessRate (co_MATING_SUCCESS_RATE config))
      else if jsnum_le (co_PREGNANCY_DURATION config) 0
              \<or> \<not> Number_isInteger (co_PREGNANCY_DURATION config)
        then Inl (InvalidPregnancyDuration (co_PREGNANCY_DURATION config))
      else if jsnum_le (co_MATURITY_THRESHOLD config) 0
              \<or> \<not> Number_isInteger (co_MATURITY_THRESHOLD config)
        then Inl (InvalidMaturityThreshold (co_MATURITY_THRESHOLD config))
      else
        andThen (checkCooldowns 0 [co_FEMALE_REPRODUCTION_COOLDOWN config,
                                   co_MALE_REPRODUCTION_COOLDOWN config])
       (andThen (case co_MALE_STRATEGIES config of
                   None \<Rightarrow> Inl InvalidMaleStrategies
                 | Some strategies \<Rightarrow>
                     if length strategies \<noteq> 3 then Inl InvalidMaleStrategies
                     else checkRequiredStrategies strategies [''orange'', ''blue'', ''yellow''])
       (andThen (validateStrategyConfig (co_ORANGE_STRATEGY config) ''ORANGE_STRATEGY'')
       (andThen (validateStrategyConfig (co_BLUE_STRATEGY config) ''BLUE_STRATEGY'')
       (andThen (validateStrategyConfig (co_YELLOW_STRATEGY config) ''YELLOW_STRATEGY'')
         (case co_FEMALE_SELECTION config of
            None \<Rightarrow> Inl (CannotReadProperty ''baseScore'')
          | Some femaleConfig \<Rightarrow>
             if jsnum_le (fo_baseScore femaleConfig) 0
               then Inl (InvalidBaseScore (fo_baseScore femaleConfig))
             else if jsnum_lt (fo_randomVariance femaleConfig) 0
               then Inl (InvalidRandomVariance (fo_randomVariance femaleConfig))
             else if jsnum_le (fo_evaluationChance femaleConfig) 0
                     \<or> jsnum_gt (fo_evaluationChance femaleConfig) 1
               then Inl (InvalidEvaluationChance (fo_evaluationChance femaleConfig))
             else checkThresholds
               [(''agreeableness'', fo_agreeableness femaleConfig),
                (''openness'', fo_openness femaleConfig),
                (''neuroticism'', fo_neuroticism femaleConfig)]))))))"


section \<open>Publishing on the event bus\<close>

text \<open>
  \<^verbatim>\<open>_addToHistory\<close>: push, then drop the oldest entry when the history has grown beyond
  its bound.
\<close>

definition addToHistory :: "nat \<Rightarrow> 'a \<Rightarrow> 'a list \<Rightarrow> 'a list" where
  "addToHistory maxHistorySize e h =
     (let h1 = h @ [e] in if length h1 > maxHistorySize then tl h1 else h1)"

text \<open>
  The reproduction components publish through \<^verbatim>\<open>eventBus.emit\<close>.  In the operations
  below a publication is recorded in the bus history (bound 1000, the constructor's
  value); the delivery to subscribed callbacks is modelled on its own in the section on
  the event bus.
\<close>

definition emitEvent :: "string \<Rightarrow> eventData \<Rightarrow> world \<Rightarrow> world" where
  "emitEvent eventType eventData w =
     w\<lparr>eventHistory := addToHistory 1000 \<lparr>ev_type = eventType, ev_data = eventData\<rparr> (eventHistory w)\<rparr>"

section \<open>BaseStrategy.attemptMating and FemaleSelection\<close>

definition attemptMating :: "reproConfig \<Rightarrow> ref \<Rightarrow> ref \<Rightarrow> world \<Rightarrow> bool \<times> world" where
  "attemptMating config male female w =
     (if js_gt (reproductionCooldown (heap w female)) (Some 0) \<or> isPregnant (heap w female) = Some True
      then (False, emitEvent ''mating_failure''
              (MatingFailure (name (heap w male)) (name (heap w female)) ''female_not_available'') w)
      else
       (let distance = calculateDistance (heap w male) (heap w female);
            (r, w1) = math_random w;
            success = (r < MATING_SUCCESS_RATE config);
            w2 = emitEvent ''mating_attempt''
                   (MatingAttempt (name (heap w1 male)) (name (heap w1 female))
                      (reproductionStrategy (heap w1 male)) distance success) w1
        in if success then
             (let w3 = upd female (\<lambda>ob. ob\<lparr>isPregnant := Some True\<rparr>) w2;
                  w4 = upd female (\<lambda>ob. ob\<lparr>pregnancyTimer := Some 0\<rparr>) w3;
                  w5 = upd female (\<lambda>ob. ob\<lparr>reproductionCooldown :=
                         Some (FEMALE_REPRODUCTION_COOLDOWN config)\<rparr>) w4;
                  w6 = upd male (\<lambda>ob. ob\<lparr>reproductionCooldown :=
                         Some (MALE_REPRODUCTION_COOLDOWN config)\<rparr>) w5;
                  w7 = addLog (ExpectingLog (name (heap w6 male)) (reproductionStrategy (heap w6 male))
                         (name (heap w6 female))) w6
              in (True, emitEvent ''mating_success''
                    (MatingSuccess (name (heap w7 male)) (name (heap w7 female))
                       (reproductionStrategy (heap w7 male)) None) w7))
           else (False, w2)))"

definition attemptMatingWithFemale :: "reproConfig \<Rightarrow> ref \<Rightarrow> ref \<Rightarrow> world \<Rightarrow> bool \<times> world" where
  "attemptMatingWithFemale config male female w =
     (if js_gt (reproductionCooldown (heap w female)) (Some 0) \<or> isPregnant (heap w female) = Some True
      then (False, w)
      else
       (let (r, w1) = math_random w;
            success = (r < MATING_SUCCESS_RATE config)
        in if success then
             (let w3 = upd female (\<lambda>ob. ob\<lparr>isPregnant := Some True\<rparr>) w1;
                  w4 = upd female (\<lambda>ob. ob\<lparr>pregnancyTimer := Some 0\<rparr>) w3;
                  w5 = upd female (\<lambda>ob. ob\<lparr>reproductionCooldown :=
                         Some (FEMALE_REPRODUCTION_COOLDOWN config)\<rparr>) w4;
                  w6 = upd male (\<lambda>ob. ob\<lparr>reproductionCooldown :=
                         Some (MALE_REPRODUCTION_COOLDOWN config)\<rparr>) w5;
                  w7 = addLog (ExpectingLog (name (heap w6 male)) (reproductionStrategy (heap w6 male))
                         (name (heap w6 female))) w6
              in (True, emitEvent ''mating_success''
                    (MatingSuccess (name (heap w7 male)) (name (heap w7 female))
                       (reproductionStrategy (heap w7 male)) (Some ''female'')) w7))
           else (False, w1)))"

text \<open>
  A property access on a value that is \<^verbatim>\<open>undefined\<close> throws a \<^verbatim>\<open>TypeError\<close>; \<^verbatim>\<open>scoreMate\<close>
  reads \<^verbatim>\<open>female.personality.agreeableness\<close> and
  \<^verbatim>\<open>this.femaleConfig.agreeableness.threshold\<close> without a test.
\<close>

datatype jsError = TypeError | Error string

definition scoreMate :: "femaleSelectionConfig \<Rightarrow> dwarf \<Rightarrow> dwarf \<Rightarrow> world \<Rightarrow> (jsError + real) \<times> world" where
  "scoreMate femaleConfig female male w =
     (case personality female of
        None \<Rightarrow> (Inl TypeError, w)
      | Some p \<Rightarrow>
        (case fs_agreeableness femaleConfig of
           None \<Rightarrow> (Inl TypeError, w)
         | Some ag \<Rightarrow>
           (case fs_openness femaleConfig of
              None \<Rightarrow> (Inl TypeError, w)
            | Some op \<Rightarrow>
              (case fs_neuroticism femaleConfig of
                 None \<Rightarrow> (Inl TypeError, w)
               | Some ne \<Rightarrow>
                 (let score0 = baseScore femaleConfig;
                      score1 = (if js_gt (Some (agreeableness p)) (ag_threshold ag) then
                                  (let s1 = (if reproductionStrategy male = Some ''blue''
                                             then score0 + blueBonus ag else score0)
                                   in if reproductionStrategy male = Some ''orange''
                                      then s1 + orangePenalty ag else s1)
                                else score0);
                      score2 = (if js_gt (Some (openness p)) (op_threshold op) then
                                  (if reproductionStrategy male = Some ''yellow''
                                   then score1 + yellowBonus op else score1)
                                else score1);
                      score3 = (if js_lt (Some (neuroticism p)) (ne_threshold ne) then
                                  (if reproductionStrategy male = Some ''orange''
                                   then score2 + orangeBonus ne else score2)
                                else score2);
                      (r, w1) = math_random w
                  in (Inr (score3 + r * randomVariance femaleConfig), w1))))))"

section \<open>StrategyFactory and ReproductionSystem.initializeReproductionTraits\<close>

text \<open>\<^verbatim>\<open>array[k]\<close> for a number \<open>k\<close>: \<^verbatim>\<open>undefined\<close> outside the array.\<close>

definition js_index :: "'a list \<Rightarrow> int \<Rightarrow> 'a option" where
  "js_index xs k = (if 0 \<le> k \<and> k < int (length xs) then Some (xs ! nat k) else None)"

definition initializeStrategyProperties :: "ref \<Rightarrow> world \<Rightarrow> world" where
  "initializeStrategyProperties male w =
     (if reproductionStrategy (heap w male) = Some ''orange'' then
        (let w1 = (if territoryX (heap w male) = None
                   then upd male (\<lambda>ob. ob\<lparr>territoryX := Some (posX ob)\<rparr>) w else w)
         in if territoryY (heap w1 male) = None
            then upd male (\<lambda>ob. ob\<lparr>territoryY := Some (posY ob)\<rparr>) w1 else w1)
      else if reproductionStrategy (heap w male) = Some ''blue'' then
        (if guardedFemale (heap w male) = None
         then upd male (\<lambda>ob. ob\<lparr>guardedFemale := Some None\<rparr>) w else w)
      else w)"

definition assignRandomStrategy :: "reproConfig \<Rightarrow> ref \<Rightarrow> world \<Rightarrow> world" where
  "assignRandomStrategy config male w =
     (if gender (heap w male) \<noteq> ''male'' then w
      else
       (let strategies = MALE_STRATEGIES config;
            (r, w1) = math_random w;
            selectedStrategy = js_index strategies \<lfloor>r * real (length strategies)\<rfloor>;
            w2 = upd male (\<lambda>ob. ob\<lparr>reproductionStrategy := selectedStrategy\<rparr>) w1;
            w3 = initializeStrategyProperties male w2
        in emitEvent ''strategy_assigned''
             (StrategyAssigned (name (heap w3 male)) (posX (heap w3 male)) (posY (heap w3 male))
                selectedStrategy) w3))"

text \<open>\<^verbatim>\<open>s || null\<close> for a string property: the empty string is falsy.\<close>

definition orNull :: "string option \<Rightarrow> string option" where
  "orNull s = (case s of None \<Rightarrow> None | Some v \<Rightarrow> if v = [] then None else Some v)"

text \<open>The argument is an object (the early return on a missing argument is not modelled).\<close>

definition initializeReproductionTraits :: "reproConfig \<Rightarrow> ref \<Rightarrow> world \<Rightarrow> world" where
  "initializeReproductionTraits config d w =
     (let w1 = (if gender (heap w d) = ''male'' then assignRandomStrategy config d w else w);
          w2 = (if isPregnant (heap w1 d) = None
                then upd d (\<lambda>ob. ob\<lparr>isPregnant := Some False\<rparr>) w1 else w1);
          w3 = (if pregnancyTimer (heap w2 d) = None
                then upd d (\<lambda>ob. ob\<lparr>pregnancyTimer := Some 0\<rparr>) w2 else w2);
          w4 = (if reproductionCooldown (heap w3 d) = None
                then upd d (\<lambda>ob. ob\<lparr>reproductionCooldown := Some 0\<rparr>) w3 else w3);
          w5 = (if mateSeekingTimer (heap w4 d) = None
                then upd d (\<lambda>ob. ob\<lparr>mateSeekingTimer := Some 0\<rparr>) w4 else w4)
      in emitEvent ''dwarf_reproduction_initialized''
           (ReproductionInitialized (name (heap w5 d)) (gender (heap w5 d))
              (orNull (reproductionStrategy (heap w5 d))) (isAdult (heap w5 d))) w5)"

section \<open>PregnancyManager\<close>

text \<open>
  Modelled from the spec: the constructor \<^verbatim>\<open>Dwarf(x, y, name, isAdult)\<close> of the host game,
  which \<^verbatim>\<open>WorldInterface.createDwarf\<close> calls, is not among the sources.  The spec's
  \<^verbatim>\<open>createAgent(x, y, name?, isAdult)\<close> creates an agent with an identity, the given
  position and adulthood flag, a sex and a personality, whose reproductive and vitality
  sub-states are unset until the respective subsystem initializes them.  What the
  constructor chooses by itself (the random name, the sex, the class, the personality)
  is the \<open>dwarfSeed\<close>.  \<open>combatStats\<close> holds the default of \<^verbatim>\<open>assignCombatStats\<close> until
  \<^verbatim>\<open>initializeDwarf\<close> assigns it.
\<close>

record dwarfSeed =
  seedName :: string
  seedGender :: string
  seedClass :: string
  seedPersonality :: "personality option"

definition Dwarf :: "dwarfSeed \<Rightarrow> real \<Rightarrow> real \<Rightarrow> string option \<Rightarrow> bool \<Rightarrow> dwarf" where
  "Dwarf seed x y nm adult = \<lparr>
     name = (case nm of None \<Rightarrow> seedName seed | Some n \<Rightarrow> n),
     posX = x, posY = y,
     gender = seedGender seed,
     isAdult = adult,
     dclass = seedClass seed,
     personality = seedPersonality seed,
     reproductionStrategy = None,
     isPregnant = None, pregnancyTimer = None, reproductionCooldown = None,
     mateSeekingTimer = None, territoryX = None, territoryY = None, guardedFemale = None,
     targetX = None, targetY = None, moveSpeed = None, efficiency = None,
     age = None, maxLifespan = None, health = None, maxHealth = None,
     attackCooldown = None, combatEffectTimer = None,
     isInCombat = False, combatTarget = None, lastAttacker = None,
     combatStats = \<lparr>attack = 1, defense = 1, speed = 1, critChance = 0.1\<rparr>,
     isDead = False, healthBarVisible = False, damageNumbers = []\<rparr>"

text \<open>\<^verbatim>\<open>world.createDwarf\<close>: a new object at the next unused reference.\<close>

definition createDwarf :: "dwarfSeed \<Rightarrow> real \<Rightarrow> real \<Rightarrow> string option \<Rightarrow> bool \<Rightarrow> world \<Rightarrow> ref \<times> world" where
  "createDwarf seed x y nm adult w =
     (nextRef w, w\<lparr>heap := (heap w)(nextRef w := Dwarf seed x y nm adult), nextRef := Suc (nextRef w)\<rparr>)"

text \<open>
  \<open>hasReproductionSystem\<close> tells whether the manager was constructed with a
  \<^verbatim>\<open>reproductionSystem\<close> (the test \<^verbatim>\<open>if (this.reproductionSystem)\<close>).
\<close>

definition giveBirth :: "reproConfig \<Rightarrow> bool \<Rightarrow> dwarfSeed \<Rightarrow> ref \<Rightarrow> world \<Rightarrow> world" where
  "giveBirth config hasReproductionSystem seed mother w =
     (if isPregnant (heap w mother) \<noteq> Some True then w
      else
       (let w1 = w\<lparr>pregnantFemales := removeAll mother (pregnantFemales w)\<rparr>;
            w2 = upd mother (\<lambda>ob. ob\<lparr>isPregnant := Some False\<rparr>) w1;
            w3 = upd mother (\<lambda>ob. ob\<lparr>pregnancyTimer := Some 0\<rparr>) w2;
            w4 = upd mother (\<lambda>ob. ob\<lparr>reproductionCooldown :=
                   Some (FEMALE_REPRODUCTION_COOLDOWN config)\<rparr>) w3;
            offsetRange = babySpawnRadius config;
            (r1, w5) = math_random w4;
            babyX = posX (heap w5 mother) + r1 * offsetRange - (offsetRange / 2);
            (r2, w6) = math_random w5;
            babyY = posY (heap w6 mother) + r2 * offsetRange - (offsetRange / 2);
            (baby, w7) = createDwarf seed babyX babyY None False w6;
            w8 = (if hasReproductionSystem then initializeReproductionTraits config baby w7 else w7);
            w9 = addDwarf baby w8;
            w10 = addLog (BirthLog (name (heap w9 mother)) (name (heap w9 baby))) w9
        in emitEvent ''birth''
             (BirthEvent (name (heap w10 mother)) (posX (heap w10 mother)) (posY (heap w10 mother))
                (reproductionCooldown (heap w10 mother))
                (name (heap w10 baby)) (posX (heap w10 baby)) (posY (heap w10 baby))
                (gender (heap w10 baby)) (orNull (reproductionStrategy (heap w10 baby)))
                (pregnancyTimer (heap w10 mother))) w10))"

definition updatePregnancy :: "reproConfig \<Rightarrow> bool \<Rightarrow> dwarfSeed \<Rightarrow> ref \<Rightarrow> world \<Rightarrow> world" where
  "updatePregnancy config hasReproductionSystem seed female w =
     (if isPregnant (heap w female) \<noteq> Some True then w
      else
       (let w1 = w\<lparr>pregnantFemales := List.insert female (pregnantFemales w)\<rparr>;
            w2 = upd female (\<lambda>ob. ob\<lparr>pregnancyTimer := js_add (pregnancyTimer ob) (Some 1)\<rparr>) w1
        in if js_ge (pregnancyTimer (heap w2 female)) (Some (PREGNANCY_DURATION config))
           then giveBirth config hasReproductionSystem seed female w2
           else w2))"

text \<open>The payload accessor for the reported gestation duration of a birth event.\<close>

definition pregnancyDuration :: "event \<Rightarrow> real option" where
  "pregnancyDuration e =
     (case ev_data e of BirthEvent mn mx my mc bn bx by bg bs dur \<Rightarrow> dur | _ \<Rightarrow> None)"


section \<open>ReproductionEventBus\<close>

text \<open>
  A subscribed callback is a function of the host.  It is identified by a number;
  \<open>handlers\<close> gives its behaviour: run on an event object in a state of the bus (it may
  subscribe, unsubscribe and change the host's own state \<open>host\<close>), it returns normally
  (\<open>None\<close>) or throws (\<open>Some e\<close>), and what it did before throwing stays done.
\<close>

record listener =
  callback :: nat
  once :: bool
  priority :: real

datatype consoleLine =
    DebugLog string eventData
  | ListenerError string jsError

record 'h eventBus =
  listeners :: "string \<Rightarrow> listener list option"
  bus_history :: "event list"
  maxHistorySize :: nat
  debugMode :: bool
  consoleOut :: "consoleLine list"
  host :: 'h

type_synonym 'h handlers = "nat \<Rightarrow> event \<Rightarrow> 'h eventBus \<Rightarrow> jsError option \<times> 'h eventBus"

text \<open>
  Statements that may throw: a computation returns \<open>Some e\<close> when it throws \<open>e\<close>.
  \<open>js_seq\<close> is statement sequencing (a throw skips the rest), \<open>try_catch\<close> the
  \<^verbatim>\<open>try { ... } catch (error) { ... }\<close> block and \<open>for_of\<close> the \<^verbatim>\<open>for (const x of xs)\<close> loop
  (a throw in the body leaves the loop).
\<close>

type_synonym 's comp = "'s \<Rightarrow> jsError option \<times> 's"

definition js_skip :: "'s comp" where
  "js_skip s = (None, s)"

definition js_do :: "('s \<Rightarrow> 's) \<Rightarrow> 's comp" where
  "js_do f s = (None, f s)"

definition js_seq :: "'s comp \<Rightarrow> 's comp \<Rightarrow> 's comp" where
  "js_seq a b s = (case a s of (None, s1) \<Rightarrow> b s1 | (Some e, s1) \<Rightarrow> (Some e, s1))"

definition try_catch :: "'s comp \<Rightarrow> (jsError \<Rightarrow> 's comp) \<Rightarrow> 's comp" where
  "try_catch body handler s = (case body s of (None, s1) \<Rightarrow> (None, s1) | (Some e, s1) \<Rightarrow> handler e s1)"

fun for_of :: "'a list \<Rightarrow> ('a \<Rightarrow> 's comp) \<Rightarrow> 's comp" where
  "for_of [] body s = (None, s)"
| "for_of (x # xs) body s =
     (case body x s of (None, s1) \<Rightarrow> for_of xs body s1 | (Some e, s1) \<Rightarrow> (Some e, s1))"

fun removeFirst :: "('a \<Rightarrow> bool) \<Rightarrow> 'a list \<Rightarrow> 'a list" where
  "removeFirst P [] = []"
| "removeFirst P (x # xs) = (if P x then xs else x # removeFirst P xs)"

definition unsubscribe :: "string \<Rightarrow> nat \<Rightarrow> 'h eventBus \<Rightarrow> 'h eventBus" where
  "unsubscribe eventType cb b =
     (case listeners b eventType of
        None \<Rightarrow> b
      | Some ls \<Rightarrow>
         (let ls1 = removeFirst (\<lambda>l. callback l = cb) ls
          in if length ls1 = 0 then b\<lparr>listeners := (listeners b)(eventType := None)\<rparr>
             else b\<lparr>listeners := (listeners b)(eventType := Some ls1)\<rparr>))"

text \<open>
  The state of an emission is the bus together with the record of the callbacks invoked
  so far.  The record is kept beside the bus, out of reach of the callbacks; it is what
  the delivery guarantee is stated about.
\<close>

definition invoke :: "'h handlers \<Rightarrow> listener \<Rightarrow> event \<Rightarrow> (nat list \<times> 'h eventBus) comp" where
  "invoke handlers l ev s =
     (case s of (calls, b) \<Rightarrow>
        (case handlers (callback l) ev b of (r, b1) \<Rightarrow> (r, (calls @ [callback l], b1))))"

definition onBus :: "('h eventBus \<Rightarrow> 'h eventBus) \<Rightarrow> (nat list \<times> 'h eventBus) comp" where
  "onBus f = js_do (\<lambda>(calls, b). (calls, f b))"

definition deliver :: "'h handlers \<Rightarrow> string \<Rightarrow> event \<Rightarrow> listener \<Rightarrow> (nat list \<times> 'h eventBus) comp" where
  "deliver handlers eventType ev l =
     try_catch
       (js_seq (invoke handlers l ev)
          (if once l then onBus (unsubscribe eventType (callback l)) else js_skip))
       (\<lambda>err. onBus (\<lambda>b. b\<lparr>consoleOut := consoleOut b @ [ListenerError eventType err]\<rparr>))"

definition emit :: "'h handlers \<Rightarrow> string \<Rightarrow> eventData \<Rightarrow> 'h eventBus \<Rightarrow> jsError option \<times> nat list \<times> 'h eventBus" where
  "emit handlers eventType eventData b =
     (let eventObject = \<lparr>ev_type = eventType, ev_data = eventData\<rparr>;
          b1 = b\<lparr>bus_history := addToHistory (maxHistorySize b) eventObject (bus_history b)\<rparr>;
          b2 = (if debugMode b1 then b1\<lparr>consoleOut := consoleOut b1 @ [DebugLog eventType eventData]\<rparr>
                else b1)
      in case listeners b2 eventType of
           None \<Rightarrow> (None, [], b2)
         | Some ls \<Rightarrow> for_of ls (deliver handlers eventType eventObject) ([], b2))"


section \<open>Notions used to state the properties\<close>

subsection \<open>Expected score\<close>

text \<open>
  \<^verbatim>\<open>Math.random()\<close> returns one of finitely many numbers, so its distribution is a finite
  list of pairs (probability, value).  The expected value of a quantity that depends on
  the number drawn is the weighted sum.  \<open>expectedScore\<close> is the expected value of the
  score \<^verbatim>\<open>scoreMate\<close> returns, taken over the number its call of \<^verbatim>\<open>Math.random()\<close> yields.
\<close>

definition isDistribution :: "(real \<times> real) list \<Rightarrow> bool" where
  "isDistribution D = (list_all (\<lambda>(p, r). 0 \<le> p \<and> 0 \<le> r \<and> r < 1) D \<and> sum_list (map fst D) = 1)"

definition expectation :: "(real \<times> real) list \<Rightarrow> (real \<Rightarrow> real) \<Rightarrow> real" where
  "expectation D X = sum_list (map (\<lambda>(p, r). p * X r) D)"

definition scoreValue :: "jsError + real \<Rightarrow> real" where
  "scoreValue v = (case v of Inr x \<Rightarrow> x | Inl e \<Rightarrow> 0)"

definition expectedScore :: "femaleSelectionConfig \<Rightarrow> dwarf \<Rightarrow> dwarf \<Rightarrow> world \<Rightarrow> (real \<times> real) list \<Rightarrow> real" where
  "expectedScore femaleConfig female male w D =
     expectation D (\<lambda>r. scoreValue (fst (scoreMate femaleConfig female male (w\<lparr>rand := (\<lambda>k. r)\<rparr>))))"

subsection \<open>Validity of a configuration\<close>

text \<open>
  The conditions on a configuration, stated as one conjunction.  A reproduction cooldown
  is a positive integer; a strategy's own properties, its mate-seeking cooldown among
  them, are positive numbers; a rate or chance is positive and at most 1.  An absent
  setting and not-a-number meet none of these conditions; positive infinity is a
  positive number, and no infinity is an integer or at most 1.
\<close>

definition positiveInteger :: "jsnum \<Rightarrow> bool" where
  "positiveInteger x = (case x of Num v \<Rightarrow> 0 < v \<and> isInteger v | _ \<Rightarrow> False)"

definition positiveNumber :: "jsnum \<Rightarrow> bool" where
  "positiveNumber x = (case x of Num v \<Rightarrow> 0 < v | PosInfinity \<Rightarrow> True | _ \<Rightarrow> False)"

definition nonNegativeNumber :: "jsnum \<Rightarrow> bool" where
  "nonNegativeNumber x = (case x of Num v \<Rightarrow> 0 \<le> v | PosInfinity \<Rightarrow> True | _ \<Rightarrow> False)"

definition positiveAtMostOne :: "jsnum \<Rightarrow> bool" where
  "positiveAtMostOne x = (case x of Num v \<Rightarrow> 0 < v \<and> v \<le> 1 | _ \<Rightarrow> False)"

definition validStrategyCommon :: "strategyObject \<Rightarrow> bool" where
  "validStrategyCommon sc =
     (positiveNumber (so_cooldown sc) \<and> positiveAtMostOne (so_matingChance sc)
      \<and> (case so_color sc of None \<Rightarrow> False | Some c \<Rightarrow> isHexColor c))"

definition validThreshold :: "traitObject option \<Rightarrow> bool" where
  "validThreshold t =
     (case t of None \<Rightarrow> False
      | Some tc \<Rightarrow> (case threshold tc of Num th \<Rightarrow> 0 \<le> th \<and> th \<le> 100 | _ \<Rightarrow> False))"

definition validConfig :: "configObject \<Rightarrow> bool" where
  "validConfig config =
     (positiveAtMostOne (co_MATING_SUCCESS_RATE config)
      \<and> positiveInteger (co_PREGNANCY_DURATION config)
      \<and> positiveInteger (co_MATURITY_THRESHOLD config)
      \<and> positiveInteger (co_FEMALE_REPRODUCTION_COOLDOWN config)
      \<and> positiveInteger (co_MALE_REPRODUCTION_COOLDOWN config)
      \<and> (case co_MALE_STRATEGIES config of None \<Rightarrow> False | Some strategies \<Rightarrow>
            length strategies = 3 \<and> set [''orange'', ''blue'', ''yellow''] \<subseteq> set strategies)
      \<and> (case co_ORANGE_STRATEGY config of None \<Rightarrow> False | Some sc \<Rightarrow>
            validStrategyCommon sc \<and> positiveNumber (so_territoryRadius sc)
            \<and> positiveNumber (so_matingDistance sc) \<and> positiveNumber (so_competitorDistance sc)
            \<and> positiveNumber (so_displacementChance sc))
      \<and> (case co_BLUE_STRATEGY config of None \<Rightarrow> False | Some sc \<Rightarrow>
            validStrategyCommon sc \<and> positiveNumber (so_guardDistance sc)
            \<and> positiveNumber (so_maxGuardRange sc))
      \<and> (case co_YELLOW_STRATEGY config of None \<Rightarrow> False | Some sc \<Rightarrow>
            validStrategyCommon sc \<and> positiveNumber (so_matingDistance sc)
            \<and> positiveNumber (so_guardDetectionRadius sc) \<and> positiveNumber (so_hidingRange sc))
      \<and> (case co_FEMALE_SELECTION config of None \<Rightarrow> False | Some femaleConfig \<Rightarrow>
            positiveNumber (fo_baseScore femaleConfig)
            \<and> nonNegativeNumber (fo_randomVariance femaleConfig)
            \<and> positiveAtMostOne (fo_evaluationChance femaleConfig)
            \<and> validThreshold (fo_agreeableness femaleConfig)
            \<and> validThreshold (fo_openness femaleConfig)
            \<and> validThreshold (fo_neuroticism femaleConfig)))"

text \<open>
  The settings that the validation compares are comparable: none of them is
  not-a-number, and those it compares without asking for their type first (the mating
  success rate, the base score, the random variance and the evaluation chance) are not
  absent either.
\<close>

definition comparable :: "jsnum \<Rightarrow> bool" where
  "comparable x = (x \<noteq> NaN \<and> x \<noteq> Undefined)"

definition noNaN :: "jsnum list \<Rightarrow> bool" where
  "noNaN xs = list_all (\<lambda>x. x \<noteq> NaN) xs"

definition comparableSettings :: "configObject \<Rightarrow> bool" where
  "comparableSettings config =
     (comparable (co_MATING_SUCCESS_RATE config)
      \<and> (case co_ORANGE_STRATEGY config of None \<Rightarrow> True | Some sc \<Rightarrow>
            noNaN [so_cooldown sc, so_matingChance sc, so_territoryRadius sc, so_matingDistance sc,
                   so_competitorDistance sc, so_displacementChance sc])
      \<and> (case co_BLUE_STRATEGY config of None \<Rightarrow> True | Some sc \<Rightarrow>
            noNaN [so_cooldown sc, so_matingChance sc, so_guardDistance sc, so_maxGuardRange sc])
      \<and> (case co_YELLOW_STRATEGY config of None \<Rightarrow> True | Some sc \<Rightarrow>
            noNaN [so_cooldown sc, so_matingChance sc, so_matingDistance sc,
                   so_guardDetectionRadius sc, so_hidingRange sc])
      \<and> (case co_FEMALE_SELECTION config of None \<Rightarrow> True | Some femaleConfig \<Rightarrow>
            comparable (fo_baseScore femaleConfig)
            \<and> comparable (fo_randomVariance femaleConfig)
            \<and> comparable (fo_evaluationChance femaleConfig)
            \<and> noNaN (map (\<lambda>t. case t of None \<Rightarrow> Undefined | Some tc \<Rightarrow> threshold tc)
                 [fo_agreeableness femaleConfig, fo_openness femaleConfig,
                  fo_neuroticism femaleConfig])))"

text \<open>
  What the validation lets through.  It differs from validity in the settings that are
  not comparable: not-a-number passes every range test, and an absent setting passes the
  tests that do not ask for its type.
\<close>

definition orNaN :: "(jsnum \<Rightarrow> bool) \<Rightarrow> jsnum \<Rightarrow> bool" where
  "orNaN P x = (x = NaN \<or> P x)"

definition orNaNOrAbsent :: "(jsnum \<Rightarrow> bool) \<Rightarrow> jsnum \<Rightarrow> bool" where
  "orNaNOrAbsent P x = (x = NaN \<or> x = Undefined \<or> P x)"

definition passesStrategyCommon :: "strategyObject \<Rightarrow> bool" where
  "passesStrategyCommon sc =
     (orNaN positiveNumber (so_cooldown sc) \<and> orNaN positiveAtMostOne (so_matingChance sc)
      \<and> (case so_color sc of None \<Rightarrow> False | Some c \<Rightarrow> isHexColor c))"

definition passesThreshold :: "traitObject option \<Rightarrow> bool" where
  "passesThreshold t =
     (case t of None \<Rightarrow> False | Some tc \<Rightarrow> threshold tc = NaN \<or> validThreshold (Some tc))"

definition passesValidation :: "configObject \<Rightarrow> bool" where
  "passesValidation config =
     (orNaNOrAbsent positiveAtMostOne (co_MATING_SUCCESS_RATE config)
      \<and> positiveInteger (co_PREGNANCY_DURATION config)
      \<and> positiveInteger (co_MATURITY_THRESHOLD config)
      \<and> positiveInteger (co_FEMALE_REPRODUCTION_COOLDOWN config)
      \<and> positiveInteger (co_MALE_REPRODUCTION_COOLDOWN config)
      \<and> (case co_MALE_STRATEGIES config of None \<Rightarrow> False | Some strategies \<Rightarrow>
            length strategies = 3 \<and> set [''orange'', ''blue'', ''yellow''] \<subseteq> set strategies)
      \<and> (case co_ORANGE_STRATEGY config of None \<Rightarrow> False | Some sc \<Rightarrow>
            passesStrategyCommon sc \<and> orNaN positiveNumber (so_territoryRadius sc)
            \<and> orNaN positiveNumber (so_matingDistance sc)
            \<and> orNaN positiveNumber (so_competitorDistance sc)
            \<and> orNaN positiveNumber (so_displacementChance sc))
      \<and> (case co_BLUE_STRATEGY config of None \<Rightarrow> False | Some sc \<Rightarrow>
            passesStrategyCommon sc \<and> orNaN positiveNumber (so_guardDistance sc)
            \<and> orNaN positiveNumber (so_maxGuardRange sc))
      \<and> (case co_YELLOW_STRATEGY config of None \<Rightarrow> False | Some sc \<Rightarrow>
            passesStrategyCommon sc \<and> orNaN positiveNumber (so_matingDistance sc)
            \<and> orNaN positiveNumber (so_guardDetectionRadius sc)
            \<and> orNaN positiveNumber (so_hidingRange sc))
      \<and> (case co_FEMALE_SELECTION config of None \<Rightarrow> False | Some femaleConfig \<Rightarrow>
            orNaNOrAbsent positiveNumber (fo_baseScore femaleConfig)
            \<and> orNaNOrAbsent nonNegativeNumber (fo_randomVariance femaleConfig)
            \<and> orNaNOrAbsent positiveAtMostOne (fo_evaluationChance femaleConfig)
            \<and> passesThreshold (fo_agreeableness femaleConfig)
            \<and> passesThreshold (fo_openness femaleConfig)
            \<and> passesThreshold (fo_neuroticism femaleConfig)))"

subsection \<open>Vitality of an agent\<close>

text \<open>What the vitality update and the death handling decide about an agent.\<close>

definition vitality :: "world \<Rightarrow> ref \<Rightarrow> real option \<times> real option \<times> bool" where
  "vitality w x = (health (heap w x), age (heap w x), isDead (heap w x))"

subsection \<open>Concrete agents and worlds\<close>

definition plainSeed :: dwarfSeed where
  "plainSeed = \<lparr>seedName = ''Urist'', seedGender = ''female'', seedClass = ''miner'',
     seedPersonality = None\<rparr>"

definition emptyWorld :: world where
  "emptyWorld = \<lparr>heap = (\<lambda>r. Dwarf plainSeed 0 0 None False), dwarfs = [],
     rand = (\<lambda>k. 0), rpos = 0, skulls = [], combatEffects = [], deathEffects = [],
     stats = \<lparr>totalDeaths = 0, deathsByAge = 0, deathsByCombat = 0, totalCombats = 0,
              totalDamageDealt = 0\<rparr>,
     pending = [], gameLog = [], eventHistory = [], pregnantFemales = [], nextRef = 0\<rparr>"

text \<open>An adult at \<open>(x, 0)\<close> with full health, as \<^verbatim>\<open>initializeDwarf\<close> leaves it.\<close>

definition fighterAt :: "string \<Rightarrow> string \<Rightarrow> real \<Rightarrow> dwarf" where
  "fighterAt nm g x =
     (Dwarf plainSeed x 0 (Some nm) True)\<lparr>gender := g, age := Some 100, maxLifespan := Some 20000,
        health := Some 100, maxHealth := Some 100, attackCooldown := Some 0,
        combatEffectTimer := Some 0\<rparr>"

text \<open>
  \<open>deathWorld\<close>: Dora (reference 0) has been brought to health 0; Bomrek (reference 1)
  has her as combat target, as last attacker and as guarded female.
\<close>

definition deathWorld :: world where
  "deathWorld = emptyWorld\<lparr>
     heap := (heap emptyWorld)
       (0 := (fighterAt ''Dora'' ''female'' 0)\<lparr>health := Some 0\<rparr>,
        1 := (fighterAt ''Bomrek'' ''male'' 10)\<lparr>reproductionStrategy := Some ''blue'',
               isInCombat := True, combatTarget := Some 0, lastAttacker := Some 0,
               guardedFemale := Some (Some 0)\<rparr>),
     dwarfs := [0, 1], nextRef := 2\<rparr>"

text \<open>
  \<open>arena a b\<close>: Dora (reference 0) at the origin, the males Bomrek (reference 1) and
  Kadol (reference 2) at distances \<open>a\<close> and \<open>b\<close> from her, in this order in the
  population; every random number is 0, so each eligibility roll succeeds.
\<close>

definition arena :: "real \<Rightarrow> real \<Rightarrow> world" where
  "arena a b = emptyWorld\<lparr>
     heap := (heap emptyWorld)
       (0 := fighterAt ''Dora'' ''female'' 0,
        1 := fighterAt ''Bomrek'' ''male'' a,
        2 := fighterAt ''Kadol'' ''male'' b),
     dwarfs := [0, 1, 2], nextRef := 3\<rparr>"

text \<open>
  \<open>birthWorld\<close>: Dora is pregnant, one tick before term; the random numbers are all
  \<open>1/2\<close>.
\<close>

definition birthWorld :: world where
  "birthWorld = emptyWorld\<lparr>
     heap := (heap emptyWorld)
       (0 := (fighterAt ''Dora'' ''female'' 100)\<lparr>isPregnant := Some True,
               pregnancyTimer := Some 3599, reproductionCooldown := Some 7200,
               mateSeekingTimer := Some 0\<rparr>),
     dwarfs := [0], rand := (\<lambda>k. 1 / 2), nextRef := 1\<rparr>"

text \<open>
  \<open>matingWorld\<close>: an available female (reference 0) and a guardian male (reference 1)
  whose reproductive fields are all set; the random numbers are all \<open>9/10\<close> in
  \<open>unluckyWorld\<close> (the success roll fails) and 0 in \<open>matingWorld\<close>.
\<close>

definition matingWorld :: world where
  "matingWorld = emptyWorld\<lparr>
     heap := (heap emptyWorld)
       (0 := (fighterAt ''Dora'' ''female'' 0)\<lparr>isPregnant := Some False,
               pregnancyTimer := Some 0, reproductionCooldown := Some 0,
               mateSeekingTimer := Some 0,
               personality := Some \<lparr>agreeableness = 80, openness = 50, neuroticism = 90\<rparr>\<rparr>,
        1 := (fighterAt ''Bomrek'' ''male'' 10)\<lparr>reproductionStrategy := Some ''blue'',
               isPregnant := Some False, pregnancyTimer := Some 0,
               reproductionCooldown := Some 0, mateSeekingTimer := Some 0,
               guardedFemale := Some None\<rparr>,
        2 := (fighterAt ''Kadol'' ''male'' 20)\<lparr>reproductionStrategy := Some ''orange''\<rparr>),
     dwarfs := [0, 1, 2], nextRef := 3\<rparr>"

definition unluckyWorld :: world where
  "unluckyWorld = matingWorld\<lparr>rand := (\<lambda>k. 9 / 10)\<rparr>"

text \<open>A fair coin between the numbers \<open>1/4\<close> and \<open>3/4\<close>.\<close>

definition coin :: "(real \<times> real) list" where
  "coin = [(1 / 2, 1 / 4), (1 / 2, 3 / 4)]"


text \<open>The shipped configuration with not-a-number for the mating success rate.\<close>

definition notANumberRateObject :: configObject where
  "notANumberRateObject = (configObjectOf REPRODUCTION_CONFIG)\<lparr>co_MATING_SUCCESS_RATE := NaN\<rparr>"

text \<open>
  A bus with three callbacks subscribed to \<open>birth\<close>; the second one throws, and every
  callback that runs adds its number to the host state.
\<close>

definition sampleBus :: "nat list eventBus" where
  "sampleBus = \<lparr>listeners = (\<lambda>t. if t = ''birth'' then
        Some [\<lparr>callback = 7, once = False, priority = 2\<rparr>,
              \<lparr>callback = 8, once = True, priority = 1\<rparr>,
              \<lparr>callback = 9, once = True, priority = 0\<rparr>] else None),
     bus_history = [], maxHistorySize = 1000, debugMode = False, consoleOut = [], host = []\<rparr>"

definition sampleHandlers :: "nat list handlers" where
  "sampleHandlers cb ev b =
     (if cb = 8 then Some (Error ''listener failed'') else None, b\<lparr>host := host b @ [cb]\<rparr>)"


definition sampleEvent :: eventData where
  "sampleEvent = MatingFailure ''Bomrek'' ''Dora'' ''female_not_available''"

section \<open>Frame lemmas\<close>

text \<open>What each building block leaves alone.\<close>

lemma heap_upd: "heap (upd r f w) = (heap w)(r := f (heap w r))"
  by (simp add: upd_def)

lemma dwarfs_upd: "dwarfs (upd r f w) = dwarfs w"
  by (simp add: upd_def)

lemma stats_upd: "stats (upd r f w) = stats w"
  by (simp add: upd_def)

lemma heap_createSkull: "heap (createSkull d w) = heap w"
  by (simp add: createSkull_def)

lemma dwarfs_createSkull: "dwarfs (createSkull d w) = dwarfs w"
  by (simp add: createSkull_def)

lemma heap_addDeathEffect: "heap (addDeathEffect cfg d w) = heap w"
  by (simp add: addDeathEffect_def)

lemma dwarfs_addDeathEffect: "dwarfs (addDeathEffect cfg d w) = dwarfs w"
  by (simp add: addDeathEffect_def)

lemma heap_addLog: "heap (addLog l w) = heap w"
  by (simp add: addLog_def)

lemma dwarfs_addLog: "dwarfs (addLog l w) = dwarfs w"
  by (simp add: addLog_def)

section \<open>Death handling\<close>

lemma heap_clearCombatTarget:
  "heap (clearCombatTarget d w x) y =
     (if y = x \<and> combatTarget (heap w x) = Some d
      then (heap w x)\<lparr>combatTarget := None, isInCombat := False\<rparr> else heap w y)"
  by (simp add: clearCombatTarget_def heap_upd)

lemma foldl_clear_combatTarget:
  "combatTarget (heap (foldl (clearCombatTarget d) w xs) y) =
     (if y \<in> set xs \<and> combatTarget (heap w y) = Some d then None else combatTarget (heap w y))"
  by (induction xs arbitrary: w) (auto simp: heap_clearCombatTarget)

lemma foldl_clear_isInCombat:
  "isInCombat (heap (foldl (clearCombatTarget d) w xs) y) =
     (if y \<in> set xs \<and> combatTarget (heap w y) = Some d then False else isInCombat (heap w y))"
  by (induction xs arbitrary: w) (auto simp: heap_clearCombatTarget)

lemma foldl_clear_lastAttacker:
  "lastAttacker (heap (foldl (clearCombatTarget d) w xs) y) = lastAttacker (heap w y)"
  by (induction xs arbitrary: w) (auto simp: heap_clearCombatTarget)

lemma foldl_clear_guardedFemale:
  "guardedFemale (heap (foldl (clearCombatTarget d) w xs) y) = guardedFemale (heap w y)"
  by (induction xs arbitrary: w) (auto simp: heap_clearCombatTarget)

lemmas death_frames = heap_upd getAllDwarfs_def heap_addLog dwarfs_addLog heap_createSkull
  dwarfs_createSkull heap_addDeathEffect dwarfs_addDeathEffect

lemma handleDeath_combatTarget:
  "combatTarget (heap (handleDeath cfg d w) y) =
     (if y \<in> set (dwarfs w) \<and> combatTarget (heap w y) = Some d then None else combatTarget (heap w y))"
  unfolding handleDeath_def Let_def
  by (auto simp: death_frames foldl_clear_combatTarget)

lemma handleDeath_isInCombat:
  "isInCombat (heap (handleDeath cfg d w) y) =
     (if y \<in> set (dwarfs w) \<and> combatTarget (heap w y) = Some d then False else isInCombat (heap w y))"
  unfolding handleDeath_def Let_def
  by (auto simp: death_frames foldl_clear_isInCombat)

lemma handleDeath_lastAttacker:
  "lastAttacker (heap (handleDeath cfg d w) y) = lastAttacker (heap w y)"
  unfolding handleDeath_def Let_def
  by (simp add: death_frames foldl_clear_lastAttacker)

lemma handleDeath_guardedFemale:
  "guardedFemale (heap (handleDeath cfg d w) y) = guardedFemale (heap w y)"
  unfolding handleDeath_def Let_def
  by (simp add: death_frames foldl_clear_guardedFemale)

lemma handleDeath_isDead: "isDead (heap (handleDeath cfg d w) d)"
  unfolding handleDeath_def Let_def
  by (simp add: death_frames)

lemma handleDeath_health: "health (heap (handleDeath cfg d w) d) = Some 0"
  unfolding handleDeath_def Let_def
  by (simp add: death_frames)

text \<open>
  Claim C1, as the code has it.  When the death of agent \<open>d\<close> is handled, every agent of
  the population whose \<open>combatTarget\<close> was \<open>d\<close> has \<open>combatTarget\<close> absent and
  \<open>isInCombat\<close> false afterwards, within the same call; \<open>d\<close> is flagged dead with health 0.
  The other two weak references, \<open>lastAttacker\<close> and \<open>guardedFemale\<close>, are left as they
  were for every agent, also where they point at \<open>d\<close>.
\<close>

theorem handleDeath_clears_combatTarget_only:
  assumes "other \<in> set (dwarfs w)" and "combatTarget (heap w other) = Some d"
  shows "combatTarget (heap (handleDeath cfg d w) other) = None
       \<and> \<not> isInCombat (heap (handleDeath cfg d w) other)
       \<and> lastAttacker (heap (handleDeath cfg d w) x) = lastAttacker (heap w x)
       \<and> guardedFemale (heap (handleDeath cfg d w) x) = guardedFemale (heap w x)
       \<and> isDead (heap (handleDeath cfg d w) d)
       \<and> health (heap (handleDeath cfg d w) d) = Some 0"
  using assms
  by (simp add: handleDeath_combatTarget handleDeath_isInCombat handleDeath_lastAttacker
      handleDeath_guardedFemale handleDeath_isDead handleDeath_health)

theorem handleDeath_clears_combatTarget_only_witness:
  "1 \<in> set (dwarfs deathWorld) \<and> combatTarget (heap deathWorld 1) = Some 0
   \<and> combatTarget (heap (handleDeath defaultLcsConfig 0 deathWorld) 1) = None
   \<and> \<not> isInCombat (heap (handleDeath defaultLcsConfig 0 deathWorld) 1)
   \<and> isDead (heap (handleDeath defaultLcsConfig 0 deathWorld) 0)"
proof -
  have h1: "1 \<in> set (dwarfs deathWorld)" by (simp add: deathWorld_def)
  have h2: "combatTarget (heap deathWorld 1) = Some 0" by (simp add: deathWorld_def)
  show ?thesis
    using h1 h2 handleDeath_clears_combatTarget_only [OF h1 h2, of defaultLcsConfig 1] by simp
qed

text \<open>
  Claim C1 as stated fails for the other weak references: after Dora's death has been
  handled, Bomrek's \<open>lastAttacker\<close> and \<open>guardedFemale\<close> still point at her.
\<close>

theorem handleDeath_leaves_lastAttacker_counterexample:
  "isDead (heap (handleDeath defaultLcsConfig 0 deathWorld) 0)
   \<and> lastAttacker (heap (handleDeath defaultLcsConfig 0 deathWorld) 1) = Some 0
   \<and> guardedFemale (heap (handleDeath defaultLcsConfig 0 deathWorld) 1) = Some (Some 0)"
  by (simp add: handleDeath_isDead handleDeath_lastAttacker handleDeath_guardedFemale deathWorld_def)

section \<open>Combat behaviour\<close>

lemma heap_math_random: "heap (snd (math_random w)) = heap w"
  by (simp add: math_random_def)

lemma heap_shouldEngageInCombat: "heap (snd (shouldEngageInCombat cfg a t w)) = heap w"
  by (simp add: shouldEngageInCombat_def math_random_def Let_def split: option.splits prod.splits)

lemma potentialTargets_eligible:
  "potentialTargets cfg d ts w = (r, w1) \<Longrightarrow>
     heap w1 = heap w \<and> set r \<subseteq> {t \<in> set ts. t \<noteq> d \<and> js_gt (health (heap w t)) (Some 0)}"
proof (induction ts arbitrary: w r w1)
  case Nil
  then show ?case by simp
next
  case (Cons t ts)
  show ?case
  proof (cases "js_gt (health (heap w t)) (Some 0) \<and> t \<noteq> d")
    case False
    with Cons.prems have "potentialTargets cfg d ts w = (r, w1)" by auto
    from Cons.IH [OF this] show ?thesis by auto
  next
    case True
    obtain b w2 where e: "shouldEngageInCombat cfg (heap w d) (heap w t) w = (b, w2)"
      by (cases "shouldEngageInCombat cfg (heap w d) (heap w t) w")
    obtain rest w3 where p: "potentialTargets cfg d ts w2 = (rest, w3)"
      by (cases "potentialTargets cfg d ts w2")
    have h2: "heap w2 = heap w" using heap_shouldEngageInCombat [of cfg "heap w d" "heap w t" w] e by simp
    from Cons.prems True e p have r: "r = (if b then t # rest else rest)" and w: "w1 = w3"
      by auto
    from Cons.IH [OF p] h2 True r w show ?thesis by auto
  qed
qed


lemma distance_fighters:
  "calculateDistance (fighterAt n g a) (fighterAt m h b) = \<bar>a - b\<bar>"
  by (simp add: calculateDistance_def fighterAt_def Dwarf_def)

lemma fighter_fields:
  "health (fighterAt n g a) = Some 100" "gender (fighterAt n g a) = g"
  "personality (fighterAt n g a) = None" "isAdult (fighterAt n g a)"
  "attackCooldown (fighterAt n g a) = Some 0" "combatTarget (fighterAt n g a) = None"
  "reproductionStrategy (fighterAt n g a) = None"
  by (simp_all add: fighterAt_def Dwarf_def plainSeed_def)

lemma arena_simps:
  "heap (arena a b) 0 = fighterAt ''Dora'' ''female'' 0"
  "heap (arena a b) 1 = fighterAt ''Bomrek'' ''male'' a"
  "heap (arena a b) (Suc 0) = fighterAt ''Bomrek'' ''male'' a"
  "heap (arena a b) 2 = fighterAt ''Kadol'' ''male'' b"
  "dwarfs (arena a b) = [0, 1, 2]" "rand (arena a b) = (\<lambda>k. 0)" "rpos (arena a b) = 0"
  by (simp_all add: arena_def emptyWorld_def)

lemma engage_roll:
  "rand w = (\<lambda>k. 0) \<Longrightarrow>
   shouldEngageInCombat defaultLcsConfig (fighterAt n ''female'' a) (fighterAt m ''male'' b) w
     = (True, w\<lparr>rpos := Suc (rpos w)\<rparr>)"
  by (simp add: shouldEngageInCombat_def fighter_fields isTerritorialDispute_def math_random_def
      defaultLcsConfig_def)

lemma attackRange_default: "attackRange defaultLcsConfig = 20"
  by (simp add: defaultLcsConfig_def)

lemma arena_nearby:
  "\<bar>a\<bar> < 40 \<Longrightarrow> \<bar>b\<bar> < 40 \<Longrightarrow>
   getNearbyDwarfs (arena a b) 0 40 = [1, 2]"
  by (simp add: getNearbyDwarfs_def getAllDwarfs_def arena_simps distance_fighters)

lemma arena_targets:
  "potentialTargets defaultLcsConfig 0 [1, 2] (arena a b) = ([1, 2], (arena a b)\<lparr>rpos := 2\<rparr>)"
  by (simp add: arena_simps fighter_fields js_gt_def js_lt_def engage_roll)

lemma arena_eligible:
  assumes "\<bar>a\<bar> < 40" and "\<bar>b\<bar> < 40"
  shows "potentialTargets defaultLcsConfig 0
     (getNearbyDwarfs (arena a b) 0 (attackRange defaultLcsConfig * 2)) (arena a b)
     = ([1, 2], (arena a b)\<lparr>rpos := 2\<rparr>)"
proof -
  have r: "attackRange defaultLcsConfig * 2 = 40" by (simp add: attackRange_default)
  show ?thesis unfolding r arena_nearby [OF assms] by (rule arena_targets)
qed

lemma arena_behavior:
  assumes "\<bar>a\<bar> < 40" and "\<bar>b\<bar> < 40"
  shows "handleCombatBehavior defaultLcsConfig 0 (arena a b) =
     (if \<bar>a\<bar> \<le> 20 then performAttack defaultLcsConfig 0 1 ((arena a b)\<lparr>rpos := 2\<rparr>)
      else (arena a b)\<lparr>rpos := 2\<rparr>)"
  unfolding handleCombatBehavior_def Let_def arena_eligible [OF assms]
  by (simp add: arena_simps fighter_fields distance_fighters js_gt_def js_lt_def attackRange_default)


text \<open>
  The engaged target is the first eligible one in population order, the nearest or not:
  with Bomrek at distance 15 and Kadol at distance 5, both eligible, the attack goes to
  Bomrek.
\<close>

lemma handleCombatBehavior_attacks_first_not_nearest:
  "fst (potentialTargets defaultLcsConfig 0
          (getNearbyDwarfs (arena 15 5) 0 (attackRange defaultLcsConfig * 2)) (arena 15 5)) = [1, 2]
   \<and> calculateDistance (heap (arena 15 5) 0) (heap (arena 15 5) 1) = 15
   \<and> calculateDistance (heap (arena 15 5) 0) (heap (arena 15 5) 2) = 5
   \<and> handleCombatBehavior defaultLcsConfig 0 (arena 15 5)
       = performAttack defaultLcsConfig 0 1 ((arena 15 5)\<lparr>rpos := 2\<rparr>)"
proof -
  have "\<bar>15::real\<bar> < 40" "\<bar>5::real\<bar> < 40" by simp_all
  note e = arena_eligible [OF this] and b = arena_behavior [OF this]
  show ?thesis
    unfolding e b by (simp add: arena_simps distance_fighters)
qed



section \<open>Initialization of reproduction traits: what it leaves alone\<close>

lemma heap_emitEvent: "heap (emitEvent t e w) = heap w" by (simp add: emitEvent_def)
lemma dwarfs_emitEvent: "dwarfs (emitEvent t e w) = dwarfs w" by (simp add: emitEvent_def)
lemma nextRef_emitEvent: "nextRef (emitEvent t e w) = nextRef w" by (simp add: emitEvent_def)
lemma nextRef_upd: "nextRef (upd r f w) = nextRef w" by (simp add: upd_def)
lemma rand_upd: "rand (upd r f w) = rand w" by (simp add: upd_def)
lemma rpos_upd: "rpos (upd r f w) = rpos w" by (simp add: upd_def)
lemma math_random_simps:
  "fst (math_random w) = rand w (rpos w)" "heap (snd (math_random w)) = heap w"
  "dwarfs (snd (math_random w)) = dwarfs w" "nextRef (snd (math_random w)) = nextRef w"
  "rand (snd (math_random w)) = rand w" "rpos (snd (math_random w)) = Suc (rpos w)"
  by (simp_all add: math_random_def)

lemma isp_other: "y \<noteq> m \<Longrightarrow> heap (initializeStrategyProperties m w) y = heap w y"
  by (simp add: initializeStrategyProperties_def heap_upd Let_def)

lemma isp_body:
  "posX (heap (initializeStrategyProperties m w) y) = posX (heap w y)"
  "posY (heap (initializeStrategyProperties m w) y) = posY (heap w y)"
  "isAdult (heap (initializeStrategyProperties m w) y) = isAdult (heap w y)"
  by (simp_all add: initializeStrategyProperties_def heap_upd Let_def)

lemma isp_dwarfs: "dwarfs (initializeStrategyProperties m w) = dwarfs w"
  by (simp add: initializeStrategyProperties_def dwarfs_upd Let_def)

lemma ars_other: "y \<noteq> m \<Longrightarrow> heap (assignRandomStrategy cfg m w) y = heap w y"
  by (simp add: assignRandomStrategy_def Let_def split_beta heap_emitEvent isp_other heap_upd math_random_simps)

lemma ars_body:
  "posX (heap (assignRandomStrategy cfg m w) y) = posX (heap w y)"
  "posY (heap (assignRandomStrategy cfg m w) y) = posY (heap w y)"
  "isAdult (heap (assignRandomStrategy cfg m w) y) = isAdult (heap w y)"
  by (simp_all add: assignRandomStrategy_def Let_def split_beta heap_emitEvent isp_body heap_upd math_random_simps)

lemma ars_dwarfs: "dwarfs (assignRandomStrategy cfg m w) = dwarfs w"
  by (simp add: assignRandomStrategy_def Let_def split_beta dwarfs_emitEvent isp_dwarfs dwarfs_upd math_random_simps)

lemma irt_other: "y \<noteq> d \<Longrightarrow> heap (initializeReproductionTraits cfg d w) y = heap w y"
  by (simp add: initializeReproductionTraits_def Let_def heap_emitEvent ars_other heap_upd)

lemma irt_body:
  "posX (heap (initializeReproductionTraits cfg d w) y) = posX (heap w y)"
  "posY (heap (initializeReproductionTraits cfg d w) y) = posY (heap w y)"
  "isAdult (heap (initializeReproductionTraits cfg d w) y) = isAdult (heap w y)"
  by (simp_all add: initializeReproductionTraits_def Let_def heap_emitEvent ars_body heap_upd)

lemma irt_dwarfs: "dwarfs (initializeReproductionTraits cfg d w) = dwarfs w"
  by (simp add: initializeReproductionTraits_def Let_def dwarfs_emitEvent ars_dwarfs dwarfs_upd)

section \<open>Gestation and birth\<close>

lemma createDwarf_simps:
  "fst (createDwarf seed x y nm a w) = nextRef w"
  "heap (snd (createDwarf seed x y nm a w)) = (heap w)(nextRef w := Dwarf seed x y nm a)"
  "dwarfs (snd (createDwarf seed x y nm a w)) = dwarfs w"
  by (simp_all add: createDwarf_def)

lemma Dwarf_body: "posX (Dwarf seed x y nm a) = x" "posY (Dwarf seed x y nm a) = y"
  "isAdult (Dwarf seed x y nm a) = a"
  by (simp_all add: Dwarf_def)

lemma heap_addDwarf: "heap (addDwarf d w) = heap w" by (simp add: addDwarf_def)
lemma dwarfs_addDwarf: "dwarfs (addDwarf d w) = dwarfs w @ [d]" by (simp add: addDwarf_def)

lemma irt_opt_other:
  "y \<noteq> d \<Longrightarrow> heap (if rs then initializeReproductionTraits cfg d w else w) y = heap w y"
  by (simp add: irt_other)

lemma irt_opt_body:
  "posX (heap (if rs then initializeReproductionTraits cfg d w else w) y) = posX (heap w y)"
  "posY (heap (if rs then initializeReproductionTraits cfg d w else w) y) = posY (heap w y)"
  "isAdult (heap (if rs then initializeReproductionTraits cfg d w else w) y) = isAdult (heap w y)"
  "dwarfs (if rs then initializeReproductionTraits cfg d w else w) = dwarfs w"
  by (simp_all add: irt_body irt_dwarfs)

lemmas birth_frames = heap_emitEvent dwarfs_emitEvent heap_addLog dwarfs_addLog heap_addDwarf
  dwarfs_addDwarf irt_opt_other irt_opt_body createDwarf_simps Dwarf_body heap_upd dwarfs_upd
  nextRef_upd rand_upd rpos_upd math_random_simps

lemma giveBirth_mother:
  assumes "isPregnant (heap w m) = Some True" and "m \<noteq> nextRef w"
  shows "isPregnant (heap (giveBirth cfg rs seed m w) m) = Some False"
    and "pregnancyTimer (heap (giveBirth cfg rs seed m w) m) = Some 0"
    and "reproductionCooldown (heap (giveBirth cfg rs seed m w) m) = Some (FEMALE_REPRODUCTION_COOLDOWN cfg)"
  using assms unfolding giveBirth_def Let_def split_beta
  by (simp_all add: birth_frames)

lemma giveBirth_baby:
  assumes "isPregnant (heap w m) = Some True" and "m \<noteq> nextRef w"
  shows "dwarfs (giveBirth cfg rs seed m w) = dwarfs w @ [nextRef w]"
    and "\<not> isAdult (heap (giveBirth cfg rs seed m w) (nextRef w))"
    and "posX (heap (giveBirth cfg rs seed m w) (nextRef w))
           = posX (heap w m) + rand w (rpos w) * babySpawnRadius cfg - babySpawnRadius cfg / 2"
    and "posY (heap (giveBirth cfg rs seed m w) (nextRef w))
           = posY (heap w m) + rand w (Suc (rpos w)) * babySpawnRadius cfg - babySpawnRadius cfg / 2"
  using assms unfolding giveBirth_def Let_def split_beta
  by (simp_all add: birth_frames)

lemma config_values:
  "PREGNANCY_DURATION REPRODUCTION_CONFIG = 3600"
  "FEMALE_REPRODUCTION_COOLDOWN REPRODUCTION_CONFIG = 7200"
  "MALE_REPRODUCTION_COOLDOWN REPRODUCTION_CONFIG = 3600"
  "MATING_SUCCESS_RATE REPRODUCTION_CONFIG = 7 / 10"
  "babySpawnRadius REPRODUCTION_CONFIG = 40"
  "MALE_STRATEGIES REPRODUCTION_CONFIG = [''orange'', ''blue'', ''yellow'']"
  by (simp_all add: REPRODUCTION_CONFIG_def)

lemma updatePregnancy_at_term:
  assumes "isPregnant (heap w f) = Some True" and "pregnancyTimer (heap w f) = Some 3599"
  shows "updatePregnancy REPRODUCTION_CONFIG rs seed f w =
     giveBirth REPRODUCTION_CONFIG rs seed f
       (upd f (\<lambda>ob. ob\<lparr>pregnancyTimer := js_add (pregnancyTimer ob) (Some 1)\<rparr>)
          (w\<lparr>pregnantFemales := List.insert f (pregnantFemales w)\<rparr>))"
  using assms unfolding updatePregnancy_def Let_def
  by (simp add: heap_upd config_values js_add_def js_ge_def js_le_def)

text \<open>
  Claim C2.  Under the shipped configuration, advancing gestation by one tick for a female
  with \<open>isPregnant = true\<close> and \<open>pregnancyTimer = 3599\<close> leaves her with
  \<open>isPregnant = false\<close>, \<open>pregnancyTimer = 0\<close> and \<open>reproductionCooldown = 7200\<close>, and
  appends exactly one new agent to the population: a non-adult placed at the mother's
  position plus \<open>U * 40 - 20\<close> on each axis, \<open>U\<close> being the next two random numbers.
\<close>

theorem updatePregnancy_gives_birth_at_term:
  assumes "isPregnant (heap w female) = Some True"
    and "pregnancyTimer (heap w female) = Some 3599"
    and "female < nextRef w"
  shows "isPregnant (heap (updatePregnancy REPRODUCTION_CONFIG rs seed female w) female) = Some False
       \<and> pregnancyTimer (heap (updatePregnancy REPRODUCTION_CONFIG rs seed female w) female) = Some 0
       \<and> reproductionCooldown (heap (updatePregnancy REPRODUCTION_CONFIG rs seed female w) female) = Some 7200
       \<and> dwarfs (updatePregnancy REPRODUCTION_CONFIG rs seed female w) = dwarfs w @ [nextRef w]
       \<and> \<not> isAdult (heap (updatePregnancy REPRODUCTION_CONFIG rs seed female w) (nextRef w))
       \<and> posX (heap (updatePregnancy REPRODUCTION_CONFIG rs seed female w) (nextRef w))
            = posX (heap w female) + rand w (rpos w) * 40 - 20
       \<and> posY (heap (updatePregnancy REPRODUCTION_CONFIG rs seed female w) (nextRef w))
            = posY (heap w female) + rand w (Suc (rpos w)) * 40 - 20"
proof -
  let ?w2 = "upd female (\<lambda>ob. ob\<lparr>pregnancyTimer := js_add (pregnancyTimer ob) (Some 1)\<rparr>)
          (w\<lparr>pregnantFemales := List.insert female (pregnantFemales w)\<rparr>)"
  have p: "isPregnant (heap ?w2 female) = Some True" using assms(1) by (simp add: heap_upd)
  have n: "female \<noteq> nextRef ?w2" using assms(3) by (simp add: nextRef_upd)
  have e: "updatePregnancy REPRODUCTION_CONFIG rs seed female w = giveBirth REPRODUCTION_CONFIG rs seed female ?w2"
    by (rule updatePregnancy_at_term [OF assms(1,2)])
  have q: "nextRef ?w2 = nextRef w" "dwarfs ?w2 = dwarfs w" "rand ?w2 = rand w" "rpos ?w2 = rpos w"
    "posX (heap ?w2 female) = posX (heap w female)" "posY (heap ?w2 female) = posY (heap w female)"
    by (simp_all add: nextRef_upd dwarfs_upd rand_upd rpos_upd heap_upd)
  show ?thesis
    unfolding e
    using giveBirth_mother [OF p n, of REPRODUCTION_CONFIG rs seed]
      giveBirth_baby [OF p n, of REPRODUCTION_CONFIG rs seed]
    by (simp only: q config_values) simp
qed

lemma last_addToHistory: "0 < n \<Longrightarrow> last (addToHistory n e h) = e"
  by (cases h) (auto simp: addToHistory_def Let_def)

lemma last_emitEvent:
  "last (eventHistory (emitEvent t e w)) = \<lparr>ev_type = t, ev_data = e\<rparr>"
  by (simp add: emitEvent_def last_addToHistory)

lemma giveBirth_event:
  assumes "isPregnant (heap w m) = Some True" and "m \<noteq> nextRef w"
  shows "ev_type (last (eventHistory (giveBirth cfg rs seed m w))) = ''birth''"
    and "pregnancyDuration (last (eventHistory (giveBirth cfg rs seed m w))) = Some 0"
  using assms unfolding giveBirth_def Let_def split_beta
  by (simp_all add: last_emitEvent pregnancyDuration_def birth_frames)

lemma birthWorld_simps:
  "isPregnant (heap birthWorld 0) = Some True" "pregnancyTimer (heap birthWorld 0) = Some 3599"
  "nextRef birthWorld = 1" "dwarfs birthWorld = [0]" "rand birthWorld = (\<lambda>k. 1 / 2)"
  "posX (heap birthWorld 0) = 100" "posY (heap birthWorld 0) = 0"
  by (simp_all add: birthWorld_def emptyWorld_def fighterAt_def Dwarf_def)

theorem updatePregnancy_gives_birth_at_term_witness:
  "isPregnant (heap birthWorld 0) = Some True \<and> pregnancyTimer (heap birthWorld 0) = Some 3599
   \<and> 0 < nextRef birthWorld
   \<and> isPregnant (heap (updatePregnancy REPRODUCTION_CONFIG True plainSeed 0 birthWorld) 0) = Some False
   \<and> pregnancyTimer (heap (updatePregnancy REPRODUCTION_CONFIG True plainSeed 0 birthWorld) 0) = Some 0
   \<and> reproductionCooldown (heap (updatePregnancy REPRODUCTION_CONFIG True plainSeed 0 birthWorld) 0) = Some 7200
   \<and> dwarfs (updatePregnancy REPRODUCTION_CONFIG True plainSeed 0 birthWorld) = [0, 1]
   \<and> \<not> isAdult (heap (updatePregnancy REPRODUCTION_CONFIG True plainSeed 0 birthWorld) 1)
   \<and> posX (heap (updatePregnancy REPRODUCTION_CONFIG True plainSeed 0 birthWorld) 1) = 100
   \<and> posY (heap (updatePregnancy REPRODUCTION_CONFIG True plainSeed 0 birthWorld) 1) = 0"
proof -
  have h1: "isPregnant (heap birthWorld 0) = Some True" by (simp add: birthWorld_simps)
  have h2: "pregnancyTimer (heap birthWorld 0) = Some 3599" by (simp add: birthWorld_simps)
  have h3: "0 < nextRef birthWorld" by (simp add: birthWorld_simps)
  show ?thesis
    using h1 h2 h3 updatePregnancy_gives_birth_at_term [OF h1 h2 h3, of True plainSeed]
    by (simp add: birthWorld_simps)
qed

text \<open>
  Claim C3 does not hold of the code.  The birth event is built after the mother's
  \<open>pregnancyTimer\<close> has been reset, so the gestation duration it reports is 0, not the
  3600 ticks that have passed: here for the pregnancy of Dora, one tick before term.
\<close>

theorem birth_event_reports_duration_zero:
  "isPregnant (heap birthWorld 0) = Some True \<and> pregnancyTimer (heap birthWorld 0) = Some 3599
   \<and> ev_type (last (eventHistory (updatePregnancy REPRODUCTION_CONFIG True plainSeed 0 birthWorld))) = ''birth''
   \<and> pregnancyDuration (last (eventHistory (updatePregnancy REPRODUCTION_CONFIG True plainSeed 0 birthWorld))) = Some 0"
proof -
  let ?w2 = "upd 0 (\<lambda>ob. ob\<lparr>pregnancyTimer := js_add (pregnancyTimer ob) (Some 1)\<rparr>)
          (birthWorld\<lparr>pregnantFemales := List.insert 0 (pregnantFemales birthWorld)\<rparr>)"
  have h1: "isPregnant (heap birthWorld 0) = Some True" by (simp add: birthWorld_simps)
  have h2: "pregnancyTimer (heap birthWorld 0) = Some 3599" by (simp add: birthWorld_simps)
  have e: "updatePregnancy REPRODUCTION_CONFIG True plainSeed 0 birthWorld
             = giveBirth REPRODUCTION_CONFIG True plainSeed 0 ?w2"
    by (rule updatePregnancy_at_term [OF h1 h2])
  have p: "isPregnant (heap ?w2 0) = Some True" using h1 by (simp add: heap_upd)
  have n: "0 \<noteq> nextRef ?w2" by (simp add: nextRef_upd birthWorld_simps)
  show ?thesis
    unfolding e using h1 h2 giveBirth_event [OF p n] by simp
qed

section \<open>Mating attempts\<close>

lemma attemptMating_fails_iff:
  "(\<not> fst (attemptMating config male female w)) =
     (js_gt (reproductionCooldown (heap w female)) (Some 0) \<or> isPregnant (heap w female) = Some True
      \<or> \<not> rand w (rpos w) < MATING_SUCCESS_RATE config)"
  by (simp add: attemptMating_def Let_def split_beta math_random_simps)

lemma attemptMating_failure_heap:
  assumes "\<not> fst (attemptMating config male female w)"
  shows "heap (snd (attemptMating config male female w)) = heap w"
proof -
  from assms have c: "js_gt (reproductionCooldown (heap w female)) (Some 0)
      \<or> isPregnant (heap w female) = Some True
      \<or> \<not> rand w (rpos w) < MATING_SUCCESS_RATE config"
    by (simp only: attemptMating_fails_iff)
  show ?thesis
  proof (cases "js_gt (reproductionCooldown (heap w female)) (Some 0)
      \<or> isPregnant (heap w female) = Some True")
    case True
    then show ?thesis by (simp add: attemptMating_def heap_emitEvent)
  next
    case False
    with c have "\<not> rand w (rpos w) < MATING_SUCCESS_RATE config" by simp
    with False show ?thesis
      by (simp add: attemptMating_def Let_def split_beta math_random_simps heap_emitEvent)
  qed
qed

lemma attemptMatingWithFemale_fails_iff:
  "(\<not> fst (attemptMatingWithFemale config male female w)) =
     (js_gt (reproductionCooldown (heap w female)) (Some 0) \<or> isPregnant (heap w female) = Some True
      \<or> \<not> rand w (rpos w) < MATING_SUCCESS_RATE config)"
  by (simp add: attemptMatingWithFemale_def Let_def split_beta math_random_simps)

lemma attemptMatingWithFemale_failure_heap:
  assumes "\<not> fst (attemptMatingWithFemale config male female w)"
  shows "heap (snd (attemptMatingWithFemale config male female w)) = heap w"
proof -
  from assms have c: "js_gt (reproductionCooldown (heap w female)) (Some 0)
      \<or> isPregnant (heap w female) = Some True
      \<or> \<not> rand w (rpos w) < MATING_SUCCESS_RATE config"
    by (simp only: attemptMatingWithFemale_fails_iff)
  show ?thesis
  proof (cases "js_gt (reproductionCooldown (heap w female)) (Some 0)
      \<or> isPregnant (heap w female) = Some True")
    case True
    then show ?thesis by (simp add: attemptMatingWithFemale_def heap_emitEvent)
  next
    case False
    with c have "\<not> rand w (rpos w) < MATING_SUCCESS_RATE config" by simp
    with False show ?thesis
      by (simp add: attemptMatingWithFemale_def Let_def split_beta math_random_simps heap_emitEvent)
  qed
qed

text \<open>
  Claim C4.  A mating attempt fails when the female's precondition does not hold (her
  reproduction cooldown is positive or she is pregnant) or when the success roll is not
  below the success rate.  Then both the male-initiated routine \<^verbatim>\<open>attemptMating\<close> and the
  female-initiated routine \<^verbatim>\<open>attemptMatingWithFemale\<close> return \<open>false\<close> and leave every
  agent as it was, in particular the pregnancy and cooldown fields of both participants.
\<close>

theorem failed_mating_attempt_changes_no_agent:
  assumes "js_gt (reproductionCooldown (heap w female)) (Some 0) \<or> isPregnant (heap w female) = Some True
      \<or> \<not> rand w (rpos w) < MATING_SUCCESS_RATE config"
  shows "\<not> fst (attemptMating config male female w)
       \<and> heap (snd (attemptMating config male female w)) = heap w
       \<and> \<not> fst (attemptMatingWithFemale config male female w)
       \<and> heap (snd (attemptMatingWithFemale config male female w)) = heap w"
proof -
  have a: "\<not> fst (attemptMating config male female w)"
    using assms by (simp only: attemptMating_fails_iff)
  have b: "\<not> fst (attemptMatingWithFemale config male female w)"
    using assms by (simp only: attemptMatingWithFemale_fails_iff)
  show ?thesis
    using a b attemptMating_failure_heap [OF a] attemptMatingWithFemale_failure_heap [OF b] by simp
qed


lemma matingWorld_male:
  "reproductionStrategy (heap matingWorld 1) = Some ''blue''"
  "gender (heap matingWorld 1) = ''male''"
  "isPregnant (heap matingWorld 1) = Some False" "pregnancyTimer (heap matingWorld 1) = Some 0"
  "reproductionCooldown (heap matingWorld 1) = Some 0" "mateSeekingTimer (heap matingWorld 1) = Some 0"
  "guardedFemale (heap matingWorld 1) = Some None"
  by (simp_all add: matingWorld_def emptyWorld_def fighterAt_def Dwarf_def)


lemma unluckyWorld_simps:
  "heap unluckyWorld = heap matingWorld" "rand unluckyWorld = (\<lambda>k. 9 / 10)"
  by (simp_all add: unluckyWorld_def)

theorem failed_mating_attempt_changes_no_agent_witness:
  "\<not> rand unluckyWorld (rpos unluckyWorld) < MATING_SUCCESS_RATE REPRODUCTION_CONFIG
   \<and> \<not> fst (attemptMating REPRODUCTION_CONFIG 1 0 unluckyWorld)
   \<and> heap (snd (attemptMating REPRODUCTION_CONFIG 1 0 unluckyWorld)) = heap unluckyWorld
   \<and> \<not> fst (attemptMatingWithFemale REPRODUCTION_CONFIG 1 0 unluckyWorld)
   \<and> heap (snd (attemptMatingWithFemale REPRODUCTION_CONFIG 1 0 unluckyWorld)) = heap unluckyWorld"
proof -
  have h: "\<not> rand unluckyWorld (rpos unluckyWorld) < MATING_SUCCESS_RATE REPRODUCTION_CONFIG"
    by (simp add: unluckyWorld_simps config_values)
  then have "js_gt (reproductionCooldown (heap unluckyWorld 0)) (Some 0)
      \<or> isPregnant (heap unluckyWorld 0) = Some True
      \<or> \<not> rand unluckyWorld (rpos unluckyWorld) < MATING_SUCCESS_RATE REPRODUCTION_CONFIG"
    by simp
  from failed_mating_attempt_changes_no_agent [OF this, of 1] h show ?thesis by simp
qed

section \<open>Initialization of reproduction traits: what it changes\<close>














section \<open>Mate scoring\<close>

lemma expectation_affine:
  "expectation D (\<lambda>r. a + r * b) = a * sum_list (map fst D) + b * expectation D (\<lambda>r. r)"
  by (induction D) (auto simp: expectation_def algebra_simps)

lemma female_config_values:
  "baseScore (FEMALE_SELECTION REPRODUCTION_CONFIG) = 50"
  "randomVariance (FEMALE_SELECTION REPRODUCTION_CONFIG) = 20"
  "fs_agreeableness (FEMALE_SELECTION REPRODUCTION_CONFIG)
     = Some \<lparr>ag_threshold = Some 60, blueBonus = 30, orangePenalty = - 10\<rparr>"
  "fs_openness (FEMALE_SELECTION REPRODUCTION_CONFIG) = Some \<lparr>op_threshold = Some 70, yellowBonus = 20\<rparr>"
  "fs_neuroticism (FEMALE_SELECTION REPRODUCTION_CONFIG) = Some \<lparr>ne_threshold = Some 40, orangeBonus = 25\<rparr>"
  by (simp_all add: REPRODUCTION_CONFIG_def)

lemma scoreMate_guardian:
  assumes "personality female = Some p" and "60 < agreeableness p"
    and "reproductionStrategy male = Some ''blue''"
  shows "fst (scoreMate (FEMALE_SELECTION REPRODUCTION_CONFIG) female male w)
           = Inr (80 + rand w (rpos w) * 20)"
  using assms
  by (simp add: scoreMate_def female_config_values Let_def split_beta math_random_simps
      js_gt_def js_lt_def)

lemma scoreMate_territorial:
  assumes "personality female = Some p" and "60 < agreeableness p" and "\<not> neuroticism p < 40"
    and "reproductionStrategy male = Some ''orange''"
  shows "fst (scoreMate (FEMALE_SELECTION REPRODUCTION_CONFIG) female male w)
           = Inr (40 + rand w (rpos w) * 20)"
  using assms
  by (simp add: scoreMate_def female_config_values Let_def split_beta math_random_simps
      js_gt_def js_lt_def)

lemma expectedScore_guardian:
  assumes "personality female = Some p" and "60 < agreeableness p"
    and "reproductionStrategy male = Some ''blue''"
  shows "expectedScore (FEMALE_SELECTION REPRODUCTION_CONFIG) female male w D
           = 80 * sum_list (map fst D) + 20 * expectation D (\<lambda>r. r)"
  unfolding expectedScore_def
  by (simp add: scoreMate_guardian [OF assms] scoreValue_def expectation_affine)

lemma expectedScore_territorial:
  assumes "personality female = Some p" and "60 < agreeableness p" and "\<not> neuroticism p < 40"
    and "reproductionStrategy male = Some ''orange''"
  shows "expectedScore (FEMALE_SELECTION REPRODUCTION_CONFIG) female male w D
           = 40 * sum_list (map fst D) + 20 * expectation D (\<lambda>r. r)"
  unfolding expectedScore_def
  by (simp add: scoreMate_territorial [OF assms] scoreValue_def expectation_affine)

text \<open>
  Claim C7.  Under the shipped configuration, for a female with agreeableness above 60
  and neuroticism not below 40, the score of a guardian (\<open>blue\<close>) male is
  \<open>50 + 30\<close> plus the random component and the score of a territorial (\<open>orange\<close>) male
  is \<open>50 - 10\<close> plus the random component, the random component being the number drawn
  times 20 in both.  So for every distribution of the number drawn the expected score
  of the guardian is the expected score of the territorial male plus 40, and strictly
  greater.
\<close>

theorem guardian_expected_score_exceeds_territorial:
  assumes "personality female = Some p" and "60 < agreeableness p" and "\<not> neuroticism p < 40"
    and "reproductionStrategy guardian = Some ''blue''"
    and "reproductionStrategy territorial = Some ''orange''"
    and "isDistribution D"
  shows "fst (scoreMate (FEMALE_SELECTION REPRODUCTION_CONFIG) female guardian w)
           = Inr (50 + 30 + rand w (rpos w) * 20)
       \<and> fst (scoreMate (FEMALE_SELECTION REPRODUCTION_CONFIG) female territorial w)
           = Inr (50 - 10 + rand w (rpos w) * 20)
       \<and> expectedScore (FEMALE_SELECTION REPRODUCTION_CONFIG) female guardian w D
           = expectedScore (FEMALE_SELECTION REPRODUCTION_CONFIG) female territorial w D + 40
       \<and> expectedScore (FEMALE_SELECTION REPRODUCTION_CONFIG) female territorial w D
           < expectedScore (FEMALE_SELECTION REPRODUCTION_CONFIG) female guardian w D"
proof -
  from assms(6) have s: "sum_list (map fst D) = 1" by (simp add: isDistribution_def)
  show ?thesis
    by (simp add: scoreMate_guardian [OF assms(1,2,4)] scoreMate_territorial [OF assms(1,2,3,5)]
        expectedScore_guardian [OF assms(1,2,4)] expectedScore_territorial [OF assms(1,2,3,5)] s)
qed

lemma matingWorld_scoring:
  "personality (heap matingWorld 0) = Some \<lparr>agreeableness = 80, openness = 50, neuroticism = 90\<rparr>"
  "reproductionStrategy (heap matingWorld 2) = Some ''orange''"
  by (simp_all add: matingWorld_def emptyWorld_def fighterAt_def Dwarf_def)

theorem guardian_expected_score_exceeds_territorial_witness:
  "personality (heap matingWorld 0) = Some \<lparr>agreeableness = 80, openness = 50, neuroticism = 90\<rparr>
   \<and> reproductionStrategy (heap matingWorld 1) = Some ''blue''
   \<and> reproductionStrategy (heap matingWorld 2) = Some ''orange''
   \<and> isDistribution coin
   \<and> expectedScore (FEMALE_SELECTION REPRODUCTION_CONFIG) (heap matingWorld 0) (heap matingWorld 2) matingWorld coin
       < expectedScore (FEMALE_SELECTION REPRODUCTION_CONFIG) (heap matingWorld 0) (heap matingWorld 1) matingWorld coin"
proof -
  have h1: "personality (heap matingWorld 0) = Some \<lparr>agreeableness = 80, openness = 50, neuroticism = 90\<rparr>"
    by (simp add: matingWorld_scoring)
  have h2: "60 < agreeableness \<lparr>agreeableness = 80, openness = 50, neuroticism = 90\<rparr>" by simp
  have h3: "\<not> neuroticism \<lparr>agreeableness = 80, openness = 50, neuroticism = 90\<rparr> < 40" by simp
  have h4: "reproductionStrategy (heap matingWorld 1) = Some ''blue''" by (rule matingWorld_male)
  have h5: "reproductionStrategy (heap matingWorld 2) = Some ''orange''" by (simp add: matingWorld_scoring)
  have h6: "isDistribution coin" by (simp add: isDistribution_def coin_def)
  from guardian_expected_score_exceeds_territorial [OF h1 h2 h3 h4 h5 h6, of matingWorld] h1 h4 h5 h6
  show ?thesis by blast
qed

section \<open>Delivery of events\<close>

lemma deliver_returns:
  "\<exists>b1. deliver handlers eventType ev l (calls, b) = (None, calls @ [callback l], b1)"
proof (cases "handlers (callback l) ev b")
  case (Pair r b1)
  then show ?thesis
    by (cases r)
      (auto simp: deliver_def try_catch_def js_seq_def invoke_def onBus_def js_do_def js_skip_def)
qed

lemma for_of_deliver:
  "\<exists>b1. for_of ls (deliver handlers eventType ev) (calls, b) = (None, calls @ map callback ls, b1)"
proof (induction ls arbitrary: calls b)
  case Nil
  then show ?case by simp
next
  case (Cons l ls)
  obtain b1 where d: "deliver handlers eventType ev l (calls, b) = (None, calls @ [callback l], b1)"
    using deliver_returns by blast
  obtain b2 where "for_of ls (deliver handlers eventType ev) (calls @ [callback l], b1)
      = (None, (calls @ [callback l]) @ map callback ls, b2)"
    using Cons.IH by blast
  with d show ?case by simp
qed

text \<open>
  Claim C8.  Whatever the subscribed callbacks do, \<^verbatim>\<open>emit\<close> returns without throwing, and
  the callbacks it has invoked are those of all listeners subscribed to the topic when
  the emission started, each once and in their order: a callback that throws does not
  keep the later ones from being invoked.
\<close>

theorem emit_catches_and_delivers_to_every_listener:
  "fst (emit handlers eventType eventData b) = None
   \<and> fst (snd (emit handlers eventType eventData b))
        = (case listeners b eventType of None \<Rightarrow> [] | Some ls \<Rightarrow> map callback ls)"
proof (cases "listeners b eventType")
  case None
  then show ?thesis by (simp add: emit_def Let_def)
next
  case (Some ls)
  let ?ev = "\<lparr>ev_type = eventType, ev_data = eventData\<rparr>"
  let ?b1 = "b\<lparr>bus_history := addToHistory (maxHistorySize b) ?ev (bus_history b)\<rparr>"
  let ?b2 = "if debugMode ?b1 then ?b1\<lparr>consoleOut := consoleOut ?b1 @ [DebugLog eventType eventData]\<rparr> else ?b1"
  have l: "listeners ?b2 eventType = Some ls" using Some by simp
  obtain b3 where "for_of ls (deliver handlers eventType ?ev) ([], ?b2) = (None, [] @ map callback ls, b3)"
    using for_of_deliver by blast
  then have "emit handlers eventType eventData b = (None, map callback ls, b3)"
    unfolding emit_def Let_def using l by simp
  with Some show ?thesis by simp
qed

lemma sample_delivery:
  "emit sampleHandlers ''birth'' sampleEvent sampleBus =
     (None, [7, 8, 9],
      sampleBus\<lparr>listeners := (listeners sampleBus)(''birth'' := Some [\<lparr>callback = 7, once = False, priority = 2\<rparr>, \<lparr>callback = 8, once = True, priority = 1\<rparr>]),
        bus_history := [\<lparr>ev_type = ''birth'', ev_data = sampleEvent\<rparr>],
        consoleOut := [ListenerError ''birth'' (Error ''listener failed'')],
        host := [7, 8, 9]\<rparr>)"
  by (simp add: emit_def Let_def sampleBus_def sampleHandlers_def addToHistory_def deliver_def
      try_catch_def js_seq_def invoke_def onBus_def js_do_def js_skip_def unsubscribe_def)

theorem emit_catches_and_delivers_to_every_listener_witness:
  "fst (emit sampleHandlers ''birth'' sampleEvent sampleBus) = None
   \<and> fst (snd (emit sampleHandlers ''birth'' sampleEvent sampleBus)) = [7, 8, 9]
   \<and> host (snd (snd (emit sampleHandlers ''birth'' sampleEvent sampleBus))) = [7, 8, 9]"
  using emit_catches_and_delivers_to_every_listener [of sampleHandlers "''birth''" sampleEvent sampleBus]
  by (simp add: sample_delivery)

section \<open>Validation of the configuration\<close>

lemma andThen_Inr: "(andThen a b = Inr ()) = (a = Inr () \<and> b = Inr ())"
  by (cases a) (auto simp: andThen_def)

lemma if_Inl_Inr: "((if c then Inl e else x) = Inr ()) = (\<not> c \<and> x = Inr ())"
  by simp

lemma sum_case_Inr:
  "((case a of Inl e \<Rightarrow> Inl e | Inr u \<Rightarrow> b) = (Inr () :: 'e + unit)) = (a = Inr () \<and> b = Inr ())"
  by (cases a) auto

lemma option_case_Inr:
  "((case x of None \<Rightarrow> Inl e | Some y \<Rightarrow> f y) = (Inr () :: 'e + unit))
     = (case x of None \<Rightarrow> False | Some y \<Rightarrow> f y = Inr ())"
  by (cases x) auto

text \<open>What each test of the validation lets through.\<close>

lemma rate_test:
  "(\<not> (jsnum_le x 0 \<or> jsnum_gt x 1)) = orNaNOrAbsent positiveAtMostOne x"
  by (cases x) (auto simp: jsnum_le_def jsnum_gt_def positiveAtMostOne_def orNaNOrAbsent_def)

lemma integer_test: "(\<not> (jsnum_le x 0 \<or> \<not> Number_isInteger x)) = positiveInteger x"
  by (cases x) (auto simp: jsnum_le_def Number_isInteger_def positiveInteger_def)

lemma positive_prop_test:
  "(\<not> (\<not> typeofNumber x \<or> jsnum_le x 0)) = orNaN positiveNumber x"
  by (cases x) (auto simp: jsnum_le_def typeofNumber_def positiveNumber_def orNaN_def)

lemma positive_test: "(\<not> jsnum_le x 0) = orNaNOrAbsent positiveNumber x"
  by (cases x) (auto simp: jsnum_le_def positiveNumber_def orNaNOrAbsent_def)

lemma nonNegative_test: "(\<not> jsnum_lt x 0) = orNaNOrAbsent nonNegativeNumber x"
  by (cases x) (auto simp: jsnum_lt_def nonNegativeNumber_def orNaNOrAbsent_def)

lemma chance_test:
  "(orNaN positiveNumber x \<and> \<not> jsnum_gt x 1) = orNaN positiveAtMostOne x"
  by (cases x) (auto simp: jsnum_gt_def positiveNumber_def positiveAtMostOne_def orNaN_def)

lemma threshold_test:
  "(\<not> \<not> typeofNumber (threshold tc) \<and> \<not> (jsnum_lt (threshold tc) 0 \<or> jsnum_gt (threshold tc) 100))
     = passesThreshold (Some tc)"
  by (cases "threshold tc")
     (auto simp: jsnum_lt_def jsnum_gt_def typeofNumber_def validThreshold_def passesThreshold_def)

lemma color_ok:
  "(\<not> (case c of None \<Rightarrow> True | Some v \<Rightarrow> v = [] \<or> \<not> isHexColor v))
     = (case c of None \<Rightarrow> False | Some v \<Rightarrow> isHexColor v)"
  by (cases c) (auto simp: isHexColor_def)

lemma checkPositiveProps_Inr:
  "(checkPositiveProps nm ps = Inr ()) = list_all (\<lambda>pv. orNaN positiveNumber (snd pv)) ps"
proof (induction ps)
  case Nil
  then show ?case by simp
next
  case (Cons a ps)
  obtain pn v where a: "a = (pn, v)" by (cases a)
  have "(checkPositiveProps nm (a # ps) = Inr ())
          = (\<not> (\<not> typeofNumber v \<or> jsnum_le v 0) \<and> checkPositiveProps nm ps = Inr ())"
    by (simp add: a)
  also have "\<dots> = (orNaN positiveNumber v \<and> list_all (\<lambda>pv. orNaN positiveNumber (snd pv)) ps)"
    by (simp only: positive_prop_test Cons.IH)
  finally show ?case by (simp add: a)
qed

lemma checkCooldowns_Inr:
  "(checkCooldowns i cs = Inr ()) = list_all positiveInteger cs"
proof (induction cs arbitrary: i)
  case Nil
  then show ?case by simp
next
  case (Cons c cs)
  have "(checkCooldowns i (c # cs) = Inr ())
          = (\<not> (jsnum_le c 0 \<or> \<not> Number_isInteger c) \<and> checkCooldowns (Suc i) cs = Inr ())"
    by simp
  also have "\<dots> = (positiveInteger c \<and> list_all positiveInteger cs)"
    by (simp only: integer_test Cons.IH)
  finally show ?case by simp
qed

lemma checkRequiredStrategies_Inr:
  "(checkRequiredStrategies have ss = Inr ()) = (set ss \<subseteq> set have)"
  by (induction ss) simp_all

lemma passesThreshold_None: "passesThreshold None = False"
  by (simp add: passesThreshold_def)

lemma checkThresholds_Inr:
  "(checkThresholds ts = Inr ()) = list_all (\<lambda>tt. passesThreshold (snd tt)) ts"
proof (induction ts)
  case Nil
  then show ?case by simp
next
  case (Cons a ts)
  obtain trait t where a: "a = (trait, t)" by (cases a)
  show ?case
  proof (cases t)
    case None
    then show ?thesis by (simp add: a passesThreshold_None)
  next
    case (Some tc)
    have "(checkThresholds (a # ts) = Inr ())
            = ((\<not> \<not> typeofNumber (threshold tc)
                \<and> \<not> (jsnum_lt (threshold tc) 0 \<or> jsnum_gt (threshold tc) 100))
               \<and> checkThresholds ts = Inr ())"
      by (simp add: a Some)
    also have "\<dots> = (passesThreshold (Some tc) \<and> list_all (\<lambda>tt. passesThreshold (snd tt)) ts)"
      by (simp only: threshold_test Cons.IH)
    finally show ?thesis by (simp add: a Some)
  qed
qed

lemma common_Inr:
  "(checkPositiveProps nm [(''cooldown'', so_cooldown sc), (''matingChance'', so_matingChance sc)] = Inr ()
    \<and> \<not> jsnum_gt (so_matingChance sc) 1
    \<and> \<not> (case so_color sc of None \<Rightarrow> True | Some c \<Rightarrow> c = [] \<or> \<not> isHexColor c))
   = passesStrategyCommon sc"
  unfolding passesStrategyCommon_def color_ok checkPositiveProps_Inr
  using chance_test [of "so_matingChance sc"] by auto

lemma validateStrategyConfig_Some:
  "(validateStrategyConfig (Some sc) nm = Inr ()) =
     (passesStrategyCommon sc
      \<and> (if nm = ''ORANGE_STRATEGY'' then
            checkPositiveProps nm
              [(''territoryRadius'', so_territoryRadius sc), (''matingDistance'', so_matingDistance sc),
               (''competitorDistance'', so_competitorDistance sc),
               (''displacementChance'', so_displacementChance sc)]
          else Inr ()) = Inr ()
      \<and> (if nm = ''BLUE_STRATEGY'' then
            checkPositiveProps nm
              [(''guardDistance'', so_guardDistance sc), (''maxGuardRange'', so_maxGuardRange sc)]
          else Inr ()) = Inr ()
      \<and> (if nm = ''YELLOW_STRATEGY'' then
            checkPositiveProps nm
              [(''matingDistance'', so_matingDistance sc),
               (''guardDetectionRadius'', so_guardDetectionRadius sc),
               (''hidingRange'', so_hidingRange sc)]
          else Inr ()) = Inr ())"
  unfolding validateStrategyConfig_def
  apply (simp only: option.case sum_case_Inr if_Inl_Inr)
  using common_Inr [of nm sc] apply blast
  done

lemma orange_Inr:
  "(validateStrategyConfig s ''ORANGE_STRATEGY'' = Inr ()) =
     (case s of None \<Rightarrow> False | Some sc \<Rightarrow>
        passesStrategyCommon sc \<and> orNaN positiveNumber (so_territoryRadius sc)
        \<and> orNaN positiveNumber (so_matingDistance sc)
        \<and> orNaN positiveNumber (so_competitorDistance sc)
        \<and> orNaN positiveNumber (so_displacementChance sc))"
proof (cases s)
  case None
  then show ?thesis by (simp add: validateStrategyConfig_def)
next
  case (Some sc)
  then show ?thesis
    by (simp add: validateStrategyConfig_Some checkPositiveProps_Inr del: checkPositiveProps.simps)
qed

lemma blue_Inr:
  "(validateStrategyConfig s ''BLUE_STRATEGY'' = Inr ()) =
     (case s of None \<Rightarrow> False | Some sc \<Rightarrow>
        passesStrategyCommon sc \<and> orNaN positiveNumber (so_guardDistance sc)
        \<and> orNaN positiveNumber (so_maxGuardRange sc))"
proof (cases s)
  case None
  then show ?thesis by (simp add: validateStrategyConfig_def)
next
  case (Some sc)
  then show ?thesis
    by (simp add: validateStrategyConfig_Some checkPositiveProps_Inr del: checkPositiveProps.simps)
qed

lemma yellow_Inr:
  "(validateStrategyConfig s ''YELLOW_STRATEGY'' = Inr ()) =
     (case s of None \<Rightarrow> False | Some sc \<Rightarrow>
        passesStrategyCommon sc \<and> orNaN positiveNumber (so_matingDistance sc)
        \<and> orNaN positiveNumber (so_guardDetectionRadius sc)
        \<and> orNaN positiveNumber (so_hidingRange sc))"
proof (cases s)
  case None
  then show ?thesis by (simp add: validateStrategyConfig_def)
next
  case (Some sc)
  then show ?thesis
    by (simp add: validateStrategyConfig_Some checkPositiveProps_Inr del: checkPositiveProps.simps)
qed

lemma male_strategies_Inr:
  "((case ms of None \<Rightarrow> Inl InvalidMaleStrategies
     | Some strategies \<Rightarrow>
         if length strategies \<noteq> 3 then Inl InvalidMaleStrategies
         else checkRequiredStrategies strategies [''orange'', ''blue'', ''yellow'']) = Inr ())
   = (case ms of None \<Rightarrow> False | Some strategies \<Rightarrow>
        length strategies = 3 \<and> set [''orange'', ''blue'', ''yellow''] \<subseteq> set strategies)"
  by (cases ms) (simp_all add: checkRequiredStrategies_Inr del: checkRequiredStrategies.simps)

lemma female_selection_Inr:
  "((case fs of None \<Rightarrow> Inl (CannotReadProperty ''baseScore'')
     | Some femaleConfig \<Rightarrow>
         if jsnum_le (fo_baseScore femaleConfig) 0
           then Inl (InvalidBaseScore (fo_baseScore femaleConfig))
         else if jsnum_lt (fo_randomVariance femaleConfig) 0
           then Inl (InvalidRandomVariance (fo_randomVariance femaleConfig))
         else if jsnum_le (fo_evaluationChance femaleConfig) 0
                 \<or> jsnum_gt (fo_evaluationChance femaleConfig) 1
           then Inl (InvalidEvaluationChance (fo_evaluationChance femaleConfig))
         else checkThresholds
           [(''agreeableness'', fo_agreeableness femaleConfig),
            (''openness'', fo_openness femaleConfig),
            (''neuroticism'', fo_neuroticism femaleConfig)]) = Inr ())
   = (case fs of None \<Rightarrow> False | Some femaleConfig \<Rightarrow>
        orNaNOrAbsent positiveNumber (fo_baseScore femaleConfig)
        \<and> orNaNOrAbsent nonNegativeNumber (fo_randomVariance femaleConfig)
        \<and> orNaNOrAbsent positiveAtMostOne (fo_evaluationChance femaleConfig)
        \<and> passesThreshold (fo_agreeableness femaleConfig)
        \<and> passesThreshold (fo_openness femaleConfig)
        \<and> passesThreshold (fo_neuroticism femaleConfig))"
proof (cases fs)
  case None
  then show ?thesis by simp
next
  case (Some femaleConfig)
  show ?thesis unfolding Some
    by (simp only: option.case if_Inl_Inr checkThresholds_Inr positive_test nonNegative_test rate_test)
       simp
qed

lemma validateConfig_Inr_iff: "(validateConfig config = Inr ()) = passesValidation config"
  unfolding validateConfig_def passesValidation_def
  apply (simp only: if_Inl_Inr andThen_Inr checkCooldowns_Inr male_strategies_Inr
      female_selection_Inr orange_Inr blue_Inr yellow_Inr rate_test integer_test)
  apply simp
  done


text \<open>On comparable settings the validation lets through the valid configurations only.\<close>

lemma orNaN_comparable: "x \<noteq> NaN \<Longrightarrow> orNaN P x = P x"
  by (simp add: orNaN_def)

lemma orNaNOrAbsent_comparable: "comparable x \<Longrightarrow> orNaNOrAbsent P x = P x"
  by (simp add: orNaNOrAbsent_def comparable_def)

lemma passesThreshold_comparable:
  "(case t of None \<Rightarrow> Undefined | Some tc \<Rightarrow> threshold tc) \<noteq> NaN
     \<Longrightarrow> passesThreshold t = validThreshold t"
  by (cases t) (simp_all add: passesThreshold_def validThreshold_def)

lemma passesStrategyCommon_comparable:
  "so_cooldown sc \<noteq> NaN \<Longrightarrow> so_matingChance sc \<noteq> NaN
     \<Longrightarrow> passesStrategyCommon sc = validStrategyCommon sc"
  by (simp add: passesStrategyCommon_def validStrategyCommon_def orNaN_comparable)

lemma passesValidation_comparable:
  assumes "comparableSettings config"
  shows "passesValidation config = validConfig config"
proof -
  have r: "orNaNOrAbsent positiveAtMostOne (co_MATING_SUCCESS_RATE config)
             = positiveAtMostOne (co_MATING_SUCCESS_RATE config)"
    using assms by (simp add: comparableSettings_def orNaNOrAbsent_comparable)
  have o: "(case co_ORANGE_STRATEGY config of None \<Rightarrow> False | Some sc \<Rightarrow>
            passesStrategyCommon sc \<and> orNaN positiveNumber (so_territoryRadius sc)
            \<and> orNaN positiveNumber (so_matingDistance sc)
            \<and> orNaN positiveNumber (so_competitorDistance sc)
            \<and> orNaN positiveNumber (so_displacementChance sc))
        = (case co_ORANGE_STRATEGY config of None \<Rightarrow> False | Some sc \<Rightarrow>
            validStrategyCommon sc \<and> positiveNumber (so_territoryRadius sc)
            \<and> positiveNumber (so_matingDistance sc) \<and> positiveNumber (so_competitorDistance sc)
            \<and> positiveNumber (so_displacementChance sc))"
    using assms
    by (cases "co_ORANGE_STRATEGY config")
       (simp_all add: comparableSettings_def noNaN_def orNaN_comparable passesStrategyCommon_comparable)
  have b: "(case co_BLUE_STRATEGY config of None \<Rightarrow> False | Some sc \<Rightarrow>
            passesStrategyCommon sc \<and> orNaN positiveNumber (so_guardDistance sc)
            \<and> orNaN positiveNumber (so_maxGuardRange sc))
        = (case co_BLUE_STRATEGY config of None \<Rightarrow> False | Some sc \<Rightarrow>
            validStrategyCommon sc \<and> positiveNumber (so_guardDistance sc)
            \<and> positiveNumber (so_maxGuardRange sc))"
    using assms
    by (cases "co_BLUE_STRATEGY config")
       (simp_all add: comparableSettings_def noNaN_def orNaN_comparable passesStrategyCommon_comparable)
  have y: "(case co_YELLOW_STRATEGY config of None \<Rightarrow> False | Some sc \<Rightarrow>
            passesStrategyCommon sc \<and> orNaN positiveNumber (so_matingDistance sc)
            \<and> orNaN positiveNumber (so_guardDetectionRadius sc)
            \<and> orNaN positiveNumber (so_hidingRange sc))
        = (case co_YELLOW_STRATEGY config of None \<Rightarrow> False | Some sc \<Rightarrow>
            validStrategyCommon sc \<and> positiveNumber (so_matingDistance sc)
            \<and> positiveNumber (so_guardDetectionRadius sc) \<and> positiveNumber (so_hidingRange sc))"
    using assms
    by (cases "co_YELLOW_STRATEGY config")
       (simp_all add: comparableSettings_def noNaN_def orNaN_comparable passesStrategyCommon_comparable)
  have f: "(case co_FEMALE_SELECTION config of None \<Rightarrow> False | Some femaleConfig \<Rightarrow>
            orNaNOrAbsent positiveNumber (fo_baseScore femaleConfig)
            \<and> orNaNOrAbsent nonNegativeNumber (fo_randomVariance femaleConfig)
            \<and> orNaNOrAbsent positiveAtMostOne (fo_evaluationChance femaleConfig)
            \<and> passesThreshold (fo_agreeableness femaleConfig)
            \<and> passesThreshold (fo_openness femaleConfig)
            \<and> passesThreshold (fo_neuroticism femaleConfig))
        = (case co_FEMALE_SELECTION config of None \<Rightarrow> False | Some femaleConfig \<Rightarrow>
            positiveNumber (fo_baseScore femaleConfig)
            \<and> nonNegativeNumber (fo_randomVariance femaleConfig)
            \<and> positiveAtMostOne (fo_evaluationChance femaleConfig)
            \<and> validThreshold (fo_agreeableness femaleConfig)
            \<and> validThreshold (fo_openness femaleConfig)
            \<and> validThreshold (fo_neuroticism femaleConfig))"
    using assms
    by (cases "co_FEMALE_SELECTION config")
       (simp_all add: comparableSettings_def noNaN_def orNaNOrAbsent_comparable
          passesThreshold_comparable)
  show ?thesis unfolding passesValidation_def validConfig_def by (simp only: r o b y f)
qed

text \<open>A valid configuration has comparable settings, and so passes.\<close>

lemma positiveNumber_not_NaN: "positiveNumber x \<Longrightarrow> x \<noteq> NaN"
  by (cases x) (simp_all add: positiveNumber_def)

lemma positiveNumber_comparable: "positiveNumber x \<Longrightarrow> comparable x"
  by (cases x) (simp_all add: positiveNumber_def comparable_def)

lemma nonNegativeNumber_comparable: "nonNegativeNumber x \<Longrightarrow> comparable x"
  by (cases x) (simp_all add: nonNegativeNumber_def comparable_def)

lemma positiveAtMostOne_comparable: "positiveAtMostOne x \<Longrightarrow> comparable x"
  by (cases x) (simp_all add: positiveAtMostOne_def comparable_def)

lemma positiveAtMostOne_not_NaN: "positiveAtMostOne x \<Longrightarrow> x \<noteq> NaN"
  by (cases x) (simp_all add: positiveAtMostOne_def)

lemma validThreshold_not_NaN:
  "validThreshold t \<Longrightarrow> (case t of None \<Rightarrow> Undefined | Some tc \<Rightarrow> threshold tc) \<noteq> NaN"
  by (cases t) (auto simp: validThreshold_def split: jsnum.splits)

lemma validConfig_comparable:
  assumes "validConfig config"
  shows "comparableSettings config"
proof -
  have r: "comparable (co_MATING_SUCCESS_RATE config)"
    using assms by (simp add: validConfig_def positiveAtMostOne_comparable)
  have o: "(case co_ORANGE_STRATEGY config of None \<Rightarrow> True | Some sc \<Rightarrow>
            noNaN [so_cooldown sc, so_matingChance sc, so_territoryRadius sc, so_matingDistance sc,
                   so_competitorDistance sc, so_displacementChance sc])"
    using assms
    by (cases "co_ORANGE_STRATEGY config")
       (simp_all add: validConfig_def validStrategyCommon_def noNaN_def positiveNumber_not_NaN
          positiveAtMostOne_not_NaN)
  have b: "(case co_BLUE_STRATEGY config of None \<Rightarrow> True | Some sc \<Rightarrow>
            noNaN [so_cooldown sc, so_matingChance sc, so_guardDistance sc, so_maxGuardRange sc])"
    using assms
    by (cases "co_BLUE_STRATEGY config")
       (simp_all add: validConfig_def validStrategyCommon_def noNaN_def positiveNumber_not_NaN
          positiveAtMostOne_not_NaN)
  have y: "(case co_YELLOW_STRATEGY config of None \<Rightarrow> True | Some sc \<Rightarrow>
            noNaN [so_cooldown sc, so_matingChance sc, so_matingDistance sc,
                   so_guardDetectionRadius sc, so_hidingRange sc])"
    using assms
    by (cases "co_YELLOW_STRATEGY config")
       (simp_all add: validConfig_def validStrategyCommon_def noNaN_def positiveNumber_not_NaN
          positiveAtMostOne_not_NaN)
  have f: "(case co_FEMALE_SELECTION config of None \<Rightarrow> True | Some femaleConfig \<Rightarrow>
            comparable (fo_baseScore femaleConfig)
            \<and> comparable (fo_randomVariance femaleConfig)
            \<and> comparable (fo_evaluationChance femaleConfig)
            \<and> noNaN (map (\<lambda>t. case t of None \<Rightarrow> Undefined | Some tc \<Rightarrow> threshold tc)
                 [fo_agreeableness femaleConfig, fo_openness femaleConfig,
                  fo_neuroticism femaleConfig]))"
    using assms
    by (cases "co_FEMALE_SELECTION config")
       (simp_all add: validConfig_def noNaN_def positiveNumber_comparable
          nonNegativeNumber_comparable positiveAtMostOne_comparable validThreshold_not_NaN)
  show ?thesis unfolding comparableSettings_def using r o b y f by blast
qed

lemma validConfig_passes: "validConfig config \<Longrightarrow> validateConfig config = Inr ()"
  using passesValidation_comparable [OF validConfig_comparable, of config]
  by (simp add: validateConfig_Inr_iff)



lemma isInteger_numeral: "isInteger (numeral n)"
  by (simp add: isInteger_def)

lemma shipped_object:
  "configObjectOf REPRODUCTION_CONFIG = \<lparr>
     co_MATING_SUCCESS_RATE = Num 0.7,
     co_PREGNANCY_DURATION = Num 3600,
     co_MATURITY_THRESHOLD = Num 1800,
     co_FEMALE_REPRODUCTION_COOLDOWN = Num 7200,
     co_MALE_REPRODUCTION_COOLDOWN = Num 3600,
     co_MALE_STRATEGIES = Some [''orange'', ''blue'', ''yellow''],
     co_ORANGE_STRATEGY = Some \<lparr>so_cooldown = Num 300, so_matingChance = Num 0.02,
        so_color = Some ''#FF6600'', so_territoryRadius = Num 80, so_matingDistance = Num 25,
        so_competitorDistance = Num 60, so_displacementChance = Num 0.1,
        so_guardDistance = Undefined, so_maxGuardRange = Undefined,
        so_guardDetectionRadius = Undefined, so_hidingRange = Undefined\<rparr>,
     co_BLUE_STRATEGY = Some \<lparr>so_cooldown = Num 240, so_matingChance = Num 0.015,
        so_color = Some ''#0066FF'', so_territoryRadius = Undefined, so_matingDistance = Undefined,
        so_competitorDistance = Undefined, so_displacementChance = Undefined,
        so_guardDistance = Num 30, so_maxGuardRange = Num 40,
        so_guardDetectionRadius = Undefined, so_hidingRange = Undefined\<rparr>,
     co_YELLOW_STRATEGY = Some \<lparr>so_cooldown = Num 180, so_matingChance = Num 0.025,
        so_color = Some ''#FFFF00'', so_territoryRadius = Undefined, so_matingDistance = Num 35,
        so_competitorDistance = Undefined, so_displacementChance = Undefined,
        so_guardDistance = Undefined, so_maxGuardRange = Undefined,
        so_guardDetectionRadius = Num 50, so_hidingRange = Num 100\<rparr>,
     co_FEMALE_SELECTION = Some \<lparr>fo_baseScore = Num 50, fo_randomVariance = Num 20,
        fo_agreeableness = Some \<lparr>threshold = Num 60\<rparr>,
        fo_openness = Some \<lparr>threshold = Num 70\<rparr>,
        fo_neuroticism = Some \<lparr>threshold = Num 40\<rparr>,
        fo_evaluationChance = Num 0.008\<rparr> \<rparr>"
  by (simp add: configObjectOf_def REPRODUCTION_CONFIG_def strategyObjectOf_def
      femaleSelectionObjectOf_def noStrategyProps_def numOf_def)

lemmas validity_defs = positiveInteger_def isInteger_numeral validStrategyCommon_def
  positiveNumber_def nonNegativeNumber_def positiveAtMostOne_def isHexColor_def isHexDigit_def
  validThreshold_def

lemma validConfig_shipped: "validConfig (configObjectOf REPRODUCTION_CONFIG)"
  unfolding shipped_object validConfig_def by (simp add: validity_defs)





text \<open>
  Settings that are not comparable slip through: an invalid mating success rate is
  rejected when it is a number out of range, and accepted when it is not-a-number.
\<close>

lemma validateConfig_rejects_negative_rate:
  "validateConfig ((configObjectOf REPRODUCTION_CONFIG)\<lparr>co_MATING_SUCCESS_RATE := Num (- 1 / 2)\<rparr>)
     = Inl (InvalidMatingSuccessRate (Num (- 1 / 2)))"
  by (simp add: validateConfig_def jsnum_le_def)

lemma validateConfig_accepts_not_a_number_rate:
  "validateConfig notANumberRateObject = Inr ()
   \<and> co_MATING_SUCCESS_RATE notANumberRateObject = NaN
   \<and> \<not> validConfig notANumberRateObject"
proof -
  have "passesValidation (configObjectOf REPRODUCTION_CONFIG)"
    using validConfig_shipped validConfig_passes by (simp only: validateConfig_Inr_iff [symmetric])
  then have "passesValidation notANumberRateObject"
    by (simp add: passesValidation_def notANumberRateObject_def orNaNOrAbsent_def)
  then show ?thesis
    by (simp add: validateConfig_Inr_iff)
       (simp add: notANumberRateObject_def validConfig_def positiveAtMostOne_def)
qed

section \<open>The per-tick vitality update\<close>

lemma isDead_upd:
  "(\<And>v. isDead (f v) = isDead v) \<Longrightarrow> isDead (heap (upd r f w) x) = isDead (heap w x)"
  by (simp add: heap_upd)

lemma potentialTargets_heap: "heap (snd (potentialTargets cfg d ts w)) = heap w"
  using potentialTargets_eligible [of cfg d ts w] by (cases "potentialTargets cfg d ts w") simp

lemma dwarfs_shouldEngageInCombat: "dwarfs (snd (shouldEngageInCombat cfg a t w)) = dwarfs w"
  by (simp add: shouldEngageInCombat_def math_random_def Let_def split: option.splits prod.splits)

lemma potentialTargets_dwarfs: "dwarfs (snd (potentialTargets cfg d ts w)) = dwarfs w"
proof (induction ts arbitrary: w)
  case Nil
  then show ?case by simp
next
  case (Cons t ts)
  show ?case
    using Cons.IH [of w] Cons.IH [of "snd (shouldEngageInCombat cfg (heap w d) (heap w t) w)"]
      dwarfs_shouldEngageInCombat [of cfg "heap w d" "heap w t" w]
    by (simp add: split_beta Let_def)
qed

lemma handleAging_frame:
  "isDead (heap (handleAging cfg d w) x) = isDead (heap w x)"
  "dwarfs (handleAging cfg d w) = dwarfs w"
  by (simp_all add: handleAging_def Let_def isDead_upd dwarfs_upd)

lemma handleHealthUpdate_frame:
  "isDead (heap (handleHealthUpdate cfg d w) x) = isDead (heap w x)"
  "dwarfs (handleHealthUpdate cfg d w) = dwarfs w"
  by (simp_all add: handleHealthUpdate_def Let_def isDead_upd dwarfs_upd)

lemma updateDamageNumbers_frame:
  "isDead (heap (updateDamageNumbers d w) x) = isDead (heap w x)"
  "dwarfs (updateDamageNumbers d w) = dwarfs w"
  by (simp_all add: updateDamageNumbers_def isDead_upd dwarfs_upd)

lemma addDamageNumber_frame:
  "isDead (heap (addDamageNumber t dmg c w) x) = isDead (heap w x)"
  "dwarfs (addDamageNumber t dmg c w) = dwarfs w"
  by (simp_all add: addDamageNumber_def Let_def split_beta isDead_upd dwarfs_upd math_random_simps)

lemma addCombatEffect_frame:
  "heap (addCombatEffect cfg a t w) = heap w"
  "dwarfs (addCombatEffect cfg a t w) = dwarfs w"
  by (simp_all add: addCombatEffect_def)

lemma moveTowardsTarget_frame:
  "isDead (heap (moveTowardsTarget d t w) x) = isDead (heap w x)"
  "dwarfs (moveTowardsTarget d t w) = dwarfs w"
  by (simp_all add: moveTowardsTarget_def Let_def isDead_upd dwarfs_upd)

lemma performAttack_frame:
  "isDead (heap (performAttack cfg a t w) x) = isDead (heap w x)"
  "dwarfs (performAttack cfg a t w) = dwarfs w"
  by (simp_all add: performAttack_def Let_def split_beta isDead_upd dwarfs_upd math_random_simps
      addDamageNumber_frame addCombatEffect_frame)

lemma handleCombatBehavior_frame:
  "isDead (heap (handleCombatBehavior cfg d w) x) = isDead (heap w x)"
  "dwarfs (handleCombatBehavior cfg d w) = dwarfs w"
  using potentialTargets_heap [of cfg d "getNearbyDwarfs w d (attackRange cfg * 2)" w]
    potentialTargets_dwarfs [of cfg d "getNearbyDwarfs w d (attackRange cfg * 2)" w]
  by (simp_all add: handleCombatBehavior_def Let_def split_beta performAttack_frame
      moveTowardsTarget_frame split: list.splits)

lemma handleDeath_frame:
  "isDead (heap (handleDeath cfg d w) x) = (x = d \<or> isDead (heap w x))"
  "dwarfs (handleDeath cfg d w) = dwarfs w"
proof -
  have f: "\<And>v xs. isDead (heap (foldl (clearCombatTarget d) v xs) x) = isDead (heap v x)"
  proof -
    fix v xs show "isDead (heap (foldl (clearCombatTarget d) v xs) x) = isDead (heap v x)"
      by (induction xs arbitrary: v) (auto simp: heap_clearCombatTarget)
  qed
  have g: "\<And>v xs. dwarfs (foldl (clearCombatTarget d) v xs) = dwarfs v"
  proof -
    fix v xs show "dwarfs (foldl (clearCombatTarget d) v xs) = dwarfs v"
      by (induction xs arbitrary: v) (auto simp: clearCombatTarget_def dwarfs_upd)
  qed
  show "isDead (heap (handleDeath cfg d w) x) = (x = d \<or> isDead (heap w x))"
    unfolding handleDeath_def Let_def by (auto simp: death_frames f)
  show "dwarfs (handleDeath cfg d w) = dwarfs w"
    unfolding handleDeath_def Let_def by (simp add: death_frames dwarfs_upd g)
qed

text \<open>The world in which \<^verbatim>\<open>updateDwarf\<close> tests for death, when the guard lets the update run.\<close>

lemma updateDwarf_cases:
  "updateDwarf cfg d w = w
   \<or> (js_gt (health (heap w d)) (Some 0)
      \<and> (\<exists>w7. dwarfs w7 = dwarfs w \<and> (\<forall>x. isDead (heap w7 x) = isDead (heap w x))
            \<and> (updateDwarf cfg d w = w7 \<or> updateDwarf cfg d w = handleDeath cfg d w7)))"
proof (cases "\<not> truthy (health (heap w d)) \<or> js_le (health (heap w d)) (Some 0)")
  case True
  then show ?thesis unfolding updateDwarf_def by (simp only: if_True simp_thms)
next
  case False
  then have h: "js_gt (health (heap w d)) (Some 0)"
    by (cases "health (heap w d)") (auto simp: js_gt_def js_lt_def js_le_def truthy_def)
  define w1 where "w1 = upd d (\<lambda>ob. ob\<lparr>age := js_add (js_or (age ob) (Some 0)) (Some 1)\<rparr>) w"
  define w3 where "w3 = handleHealthUpdate cfg d (handleAging cfg d w1)"
  define w4 where "w4 = (if js_gt (attackCooldown (heap w3 d)) (Some 0)
                  then upd d (\<lambda>ob. ob\<lparr>attackCooldown := js_sub (attackCooldown ob) (Some 1)\<rparr>) w3
                  else w3)"
  define w5 where "w5 = (if js_gt (combatEffectTimer (heap w4 d)) (Some 0)
                  then upd d (\<lambda>ob. ob\<lparr>combatEffectTimer := js_sub (combatEffectTimer ob) (Some 1)\<rparr>) w4
                  else w4)"
  define w7 where "w7 = handleCombatBehavior cfg d (updateDamageNumbers d w5)"
  have a: "dwarfs w7 = dwarfs w"
    by (simp add: w7_def w5_def w4_def w3_def w1_def handleCombatBehavior_frame updateDamageNumbers_frame
        handleHealthUpdate_frame handleAging_frame dwarfs_upd)
  have b: "\<forall>x. isDead (heap w7 x) = isDead (heap w x)"
    by (simp add: w7_def w5_def w4_def w3_def w1_def handleCombatBehavior_frame updateDamageNumbers_frame
        handleHealthUpdate_frame handleAging_frame isDead_upd)
  have "updateDwarf cfg d w = w7 \<or> updateDwarf cfg d w = handleDeath cfg d w7"
    unfolding updateDwarf_def using False
    by (simp add: Let_def w7_def w5_def w4_def w3_def w1_def)
  with h a b show ?thesis by blast
qed

text \<open>
  An update flags no agent but the updated one, and that one only if its health was
  positive on entry; when it does, no agent of the population is left with the dead
  agent as combat target.
\<close>

lemma updateDwarf_flags_only_itself:
  assumes "isDead (heap (updateDwarf cfg d w) x)" and "\<not> isDead (heap w x)"
  shows "x = d \<and> js_gt (health (heap w d)) (Some 0)
       \<and> (\<forall>other \<in> set (dwarfs w). combatTarget (heap (updateDwarf cfg d w) other) \<noteq> Some d)"
proof -
  from updateDwarf_cases [of cfg d w] assms
  obtain w7 where h: "js_gt (health (heap w d)) (Some 0)"
    and a: "dwarfs w7 = dwarfs w" and b: "\<forall>x. isDead (heap w7 x) = isDead (heap w x)"
    and c: "updateDwarf cfg d w = w7 \<or> updateDwarf cfg d w = handleDeath cfg d w7"
    by auto
  from c assms b have e: "updateDwarf cfg d w = handleDeath cfg d w7" by auto
  with assms b have "x = d" by (simp add: handleDeath_frame)
  moreover have "\<forall>other \<in> set (dwarfs w). combatTarget (heap (updateDwarf cfg d w) other) \<noteq> Some d"
    unfolding e by (simp add: handleDeath_combatTarget a)
  ultimately show ?thesis using h by blast
qed

lemma heap_upd_other: "x \<noteq> r \<Longrightarrow> heap (upd r f w) x = heap w x"
  by (simp add: heap_upd)

lemma handleAging_other: "x \<noteq> d \<Longrightarrow> heap (handleAging cfg d w) x = heap w x"
  by (simp add: handleAging_def Let_def heap_upd_other)

lemma handleHealthUpdate_other: "x \<noteq> d \<Longrightarrow> heap (handleHealthUpdate cfg d w) x = heap w x"
  by (simp add: handleHealthUpdate_def Let_def heap_upd_other)

lemma updateDamageNumbers_other: "x \<noteq> d \<Longrightarrow> heap (updateDamageNumbers d w) x = heap w x"
  by (simp add: updateDamageNumbers_def heap_upd_other)

lemma addDamageNumber_other: "x \<noteq> t \<Longrightarrow> heap (addDamageNumber t dmg c w) x = heap w x"
  by (simp add: addDamageNumber_def Let_def split_beta heap_upd_other math_random_simps)

lemma moveTowardsTarget_other: "x \<noteq> d \<Longrightarrow> heap (moveTowardsTarget d t w) x = heap w x"
  by (simp add: moveTowardsTarget_def Let_def heap_upd_other)

lemma performAttack_other:
  "x \<noteq> a \<Longrightarrow> x \<noteq> t \<Longrightarrow> heap (performAttack cfg a t w) x = heap w x"
  by (simp add: performAttack_def Let_def split_beta heap_upd_other math_random_simps
      addDamageNumber_other addCombatEffect_frame)

lemma handleCombatBehavior_other:
  assumes "x \<noteq> d" and "\<not> js_gt (health (heap w x)) (Some 0)"
  shows "heap (handleCombatBehavior cfg d w) x = heap w x"
proof -
  obtain ts w1 where p: "potentialTargets cfg d (getNearbyDwarfs w d (attackRange cfg * 2)) w = (ts, w1)"
    by (cases "potentialTargets cfg d (getNearbyDwarfs w d (attackRange cfg * 2)) w")
  from potentialTargets_eligible [OF p]
  have h: "heap w1 = heap w" and e: "\<forall>t \<in> set ts. js_gt (health (heap w t)) (Some 0)" by auto
  show ?thesis
  proof (cases ts)
    case Nil
    with p h show ?thesis by (simp add: handleCombatBehavior_def Let_def)
  next
    case (Cons t ts')
    with e assms(2) have "x \<noteq> t" by auto
    with Cons p h assms(1) show ?thesis
      by (simp add: handleCombatBehavior_def Let_def performAttack_other moveTowardsTarget_other)
  qed
qed

lemma handleDeath_vitality: "x \<noteq> d \<Longrightarrow> vitality (handleDeath cfg d w) x = vitality w x"
proof -
  assume n: "x \<noteq> d"
  have f: "\<And>v xs. vitality (foldl (clearCombatTarget d) v xs) x = vitality v x"
  proof -
    fix v xs show "vitality (foldl (clearCombatTarget d) v xs) x = vitality v x"
      by (induction xs arbitrary: v) (auto simp: heap_clearCombatTarget vitality_def)
  qed
  have g: "\<And>f v. vitality (upd d f v) x = vitality v x"
    using n by (simp add: vitality_def heap_upd_other)
  have k: "\<And>v v'. heap v = heap v' \<Longrightarrow> vitality v x = vitality v' x"
    by (simp add: vitality_def)
  show ?thesis
    unfolding handleDeath_def Let_def
    by (simp only: g f) (rule k, simp add: death_frames)
qed

lemma updateDwarf_other_vitality:
  assumes "x \<noteq> d" and "\<not> js_gt (health (heap w x)) (Some 0)"
  shows "vitality (updateDwarf cfg d w) x = vitality w x"
proof (cases "\<not> truthy (health (heap w d)) \<or> js_le (health (heap w d)) (Some 0)")
  case True
  then show ?thesis unfolding updateDwarf_def by (simp only: if_True)
next
  case False
  define w1 where "w1 = upd d (\<lambda>ob. ob\<lparr>age := js_add (js_or (age ob) (Some 0)) (Some 1)\<rparr>) w"
  define w3 where "w3 = handleHealthUpdate cfg d (handleAging cfg d w1)"
  define w4 where "w4 = (if js_gt (attackCooldown (heap w3 d)) (Some 0)
                  then upd d (\<lambda>ob. ob\<lparr>attackCooldown := js_sub (attackCooldown ob) (Some 1)\<rparr>) w3
                  else w3)"
  define w5 where "w5 = (if js_gt (combatEffectTimer (heap w4 d)) (Some 0)
                  then upd d (\<lambda>ob. ob\<lparr>combatEffectTimer := js_sub (combatEffectTimer ob) (Some 1)\<rparr>) w4
                  else w4)"
  define w6 where "w6 = updateDamageNumbers d w5"
  define w7 where "w7 = handleCombatBehavior cfg d w6"
  have a: "heap w6 x = heap w x"
    using assms(1)
    by (simp add: w6_def w5_def w4_def w3_def w1_def updateDamageNumbers_other
        handleHealthUpdate_other handleAging_other heap_upd_other)
  with assms(2) have "\<not> js_gt (health (heap w6 x)) (Some 0)" by simp
  from handleCombatBehavior_other [OF assms(1) this] a
  have b: "heap w7 x = heap w x" by (simp add: w7_def)
  have "updateDwarf cfg d w = w7 \<or> updateDwarf cfg d w = handleDeath cfg d w7"
    unfolding updateDwarf_def using False
    by (simp add: Let_def w7_def w6_def w5_def w4_def w3_def w1_def)
  then show ?thesis
    using b handleDeath_vitality [OF assms(1), of cfg w7] by (auto simp: vitality_def)
qed

lemma updateOne_vitality:
  assumes "\<not> js_gt (health (heap w x)) (Some 0)"
  shows "vitality (updateOne cfg w d) x = vitality w x"
proof (cases "x = d")
  case True
  have "\<not> truthy (health (heap w d)) \<or> js_le (health (heap w d)) (Some 0)"
    using assms True by (cases "health (heap w d)") (auto simp: js_gt_def js_lt_def js_le_def truthy_def)
  then have "updateDwarf cfg d w = w" unfolding updateDwarf_def by (simp only: if_True)
  then show ?thesis by (simp add: updateOne_def)
next
  case False
  then show ?thesis using updateDwarf_other_vitality [OF False assms] by (simp add: updateOne_def)
qed

lemma foldl_updateOne_vitality:
  "\<not> js_gt (health (heap w x)) (Some 0) \<Longrightarrow>
     vitality (foldl (updateOne cfg) w ds) x = vitality w x"
proof (induction ds arbitrary: w)
  case Nil
  then show ?case by simp
next
  case (Cons d ds)
  from updateOne_vitality [OF Cons.prems, of cfg d]
  have v: "vitality (updateOne cfg w d) x = vitality w x" .
  then have "\<not> js_gt (health (heap (updateOne cfg w d) x)) (Some 0)"
    using Cons.prems by (simp add: vitality_def)
  from Cons.IH [OF this] v show ?case by simp
qed

lemma update_vitality:
  assumes "\<not> js_gt (health (heap w x)) (Some 0)"
  shows "vitality (update cfg w) x = vitality w x"
proof -
  have "heap (update cfg w) = heap (foldl (updateOne cfg) w (dwarfs w))"
    by (simp add: update_def updateEffects_def updateSkulls_def Let_def)
  then have "vitality (update cfg w) x = vitality (foldl (updateOne cfg) w (dwarfs w)) x"
    by (simp add: vitality_def)
  with foldl_updateOne_vitality [OF assms] show ?thesis by simp
qed

lemma updateDwarf_guard:
  assumes "\<not> js_gt (health (heap w d)) (Some 0)"
  shows "updateDwarf cfg d w = w"
proof -
  have "\<not> truthy (health (heap w d)) \<or> js_le (health (heap w d)) (Some 0)"
    using assms by (cases "health (heap w d)") (auto simp: js_gt_def js_lt_def js_le_def truthy_def)
  then show ?thesis unfolding updateDwarf_def by (simp only: if_True)
qed

text \<open>
  Claim C10.  If the health of agent \<open>d\<close> is absent, zero or negative when its per-tick
  update starts, \<^verbatim>\<open>updateDwarf\<close> returns at once and the whole world is as before: the
  age of \<open>d\<close> is not incremented, no death is counted or logged, \<open>isDead\<close> is not set and no
  reference of another agent is cleared.  Nor do the updates of the other agents touch
  it: after the whole tick (\<^verbatim>\<open>update\<close>) its health, age and dead flag are what they were.
  An update sets the dead flag of no agent but the one it updates, and of that one only
  if its health was positive on entry.
\<close>

theorem updateDwarf_skips_agent_without_health:
  "(\<not> js_gt (health (heap w d)) (Some 0) \<longrightarrow>
      updateDwarf cfg d w = w \<and> vitality (update cfg w) d = vitality w d)
   \<and> (isDead (heap (updateDwarf cfg d w) x) \<and> \<not> isDead (heap w x) \<longrightarrow>
      x = d \<and> js_gt (health (heap w d)) (Some 0))"
  using updateDwarf_guard [of w d cfg] update_vitality [of w d cfg]
    updateDwarf_flags_only_itself [of cfg d w x]
  by blast

theorem updateDwarf_skips_agent_without_health_witness:
  "\<not> js_gt (health (heap deathWorld 0)) (Some 0)
   \<and> updateDwarf defaultLcsConfig 0 deathWorld = deathWorld
   \<and> vitality (update defaultLcsConfig deathWorld) 0 = (Some 0, Some 100, False)"
proof -
  have h: "\<not> js_gt (health (heap deathWorld 0)) (Some 0)"
    by (simp add: deathWorld_def js_gt_def js_lt_def)
  have v: "vitality deathWorld 0 = (Some 0, Some 100, False)"
    by (simp add: vitality_def deathWorld_def fighterAt_def Dwarf_def)
  from updateDwarf_skips_agent_without_health [of deathWorld 0 defaultLcsConfig] h v
  show ?thesis by simp
qed

end
